theory Spec2Isabelle
  imports Main "HOL-Library.Word" "HOL-Library.Monad_Syntax"
begin

unbundle bit_operations_syntax

section \<open>Machine types\<close>

text \<open>
  The shim is modelled for a platform with 32-bit \<open>int\<close> and 64-bit \<open>size_t\<close> and
  pointers, so \<open>sizeof (nng_msg *)\<close> is 8. A C \<open>int\<close> whose arithmetic never overflows
  in the code (error codes, flags, socket numbers, return values) is a HOL \<open>int\<close>;
  every \<open>size_t\<close> is a \<open>64 word\<close>, and the casts between the two are written out.
\<close>

type_synonym byte = "8 word"
type_synonym size_t = "64 word"
type_synonym addr = "64 word"
type_synonym handle = "64 word"

definition NULL :: addr where
  "NULL = 0"

definition sizeof_msg :: size_t where
  "sizeof_msg = 8"

definition sizeof_int :: size_t where
  "sizeof_int = 4"

definition sizeof_usec :: size_t where
  "sizeof_usec = 8"

text \<open>The cast \<open>(int) len\<close> of a \<open>size_t\<close>: the low 32 bits, read as two's complement.\<close>

definition int_of_size :: "size_t \<Rightarrow> int" where
  "int_of_size n = sint (ucast n :: 32 word)"

section \<open>Constants of the headers\<close>

text \<open>
  Modelled from the spec: the constants of \<open>nng.h\<close>, \<open>nng_compat.h\<close> and \<open>errno.h\<close>,
  which are not among the source files. The spec names them only ("numeric error codes",
  "option levels/ids as integers", "a sentinel length"); the numeric values below are the
  ones of the legacy ABI, of the native error enumeration and of Linux's \<open>errno.h\<close>.
  The development uses only that the values compared by one \<open>switch\<close> or one table
  scan are pairwise distinct and that the error codes are not zero.
\<close>

definition NNG_EINTR :: int where "NNG_EINTR = 1"
definition NNG_ENOMEM :: int where "NNG_ENOMEM = 2"
definition NNG_EINVAL :: int where "NNG_EINVAL = 3"
definition NNG_EBUSY :: int where "NNG_EBUSY = 4"
definition NNG_ETIMEDOUT :: int where "NNG_ETIMEDOUT = 5"
definition NNG_ECONNREFUSED :: int where "NNG_ECONNREFUSED = 6"
definition NNG_ECLOSED :: int where "NNG_ECLOSED = 7"
definition NNG_EAGAIN :: int where "NNG_EAGAIN = 8"
definition NNG_ENOTSUP :: int where "NNG_ENOTSUP = 9"
definition NNG_EADDRINUSE :: int where "NNG_EADDRINUSE = 10"
definition NNG_ESTATE :: int where "NNG_ESTATE = 11"
definition NNG_ENOENT :: int where "NNG_ENOENT = 12"
definition NNG_EPROTO :: int where "NNG_EPROTO = 13"
definition NNG_EUNREACHABLE :: int where "NNG_EUNREACHABLE = 14"
definition NNG_EADDRINVAL :: int where "NNG_EADDRINVAL = 15"
definition NNG_EPERM :: int where "NNG_EPERM = 16"
definition NNG_EMSGSIZE :: int where "NNG_EMSGSIZE = 17"
definition NNG_ECONNABORTED :: int where "NNG_ECONNABORTED = 18"
definition NNG_ECONNRESET :: int where "NNG_ECONNRESET = 19"

definition ENOENT :: int where "ENOENT = 2"
definition EINTR :: int where "EINTR = 4"
definition EIO :: int where "EIO = 5"
definition EBADF :: int where "EBADF = 9"
definition EAGAIN :: int where "EAGAIN = 11"
definition ENOMEM :: int where "ENOMEM = 12"
definition EACCES :: int where "EACCES = 13"
definition EBUSY :: int where "EBUSY = 16"
definition EINVAL :: int where "EINVAL = 22"
definition EPROTO :: int where "EPROTO = 71"
definition EMSGSIZE :: int where "EMSGSIZE = 90"
definition ENOPROTOOPT :: int where "ENOPROTOOPT = 92"
definition ENOTSUP :: int where "ENOTSUP = 95"
definition EAFNOSUPPORT :: int where "EAFNOSUPPORT = 97"
definition EADDRINUSE :: int where "EADDRINUSE = 98"
definition EADDRNOTAVAIL :: int where "EADDRNOTAVAIL = 99"
definition ECONNABORTED :: int where "ECONNABORTED = 103"
definition ECONNRESET :: int where "ECONNRESET = 104"
definition ETIMEDOUT :: int where "ETIMEDOUT = 110"
definition ECONNREFUSED :: int where "ECONNREFUSED = 111"
definition EHOSTUNREACH :: int where "EHOSTUNREACH = 113"
definition EFSM :: int where "EFSM = 156384766"

lemmas nng_errno_defs =
  NNG_EINTR_def NNG_ENOMEM_def NNG_EINVAL_def NNG_EBUSY_def NNG_ETIMEDOUT_def
  NNG_ECONNREFUSED_def NNG_ECLOSED_def NNG_EAGAIN_def NNG_ENOTSUP_def NNG_EADDRINUSE_def
  NNG_ESTATE_def NNG_ENOENT_def NNG_EPROTO_def NNG_EUNREACHABLE_def NNG_EADDRINVAL_def
  NNG_EPERM_def NNG_EMSGSIZE_def NNG_ECONNABORTED_def NNG_ECONNRESET_def

lemmas posix_errno_defs =
  ENOENT_def EINTR_def EIO_def EBADF_def EAGAIN_def ENOMEM_def EACCES_def EBUSY_def
  EINVAL_def EPROTO_def EMSGSIZE_def ENOPROTOOPT_def ENOTSUP_def EAFNOSUPPORT_def
  EADDRINUSE_def EADDRNOTAVAIL_def ECONNABORTED_def ECONNRESET_def ETIMEDOUT_def
  ECONNREFUSED_def EHOSTUNREACH_def EFSM_def

definition NN_SOL_SOCKET :: int where "NN_SOL_SOCKET = 0"
definition NN_SUB :: int where "NN_SUB = 33"
definition NN_REQ :: int where "NN_REQ = 48"
definition NN_SURVEYOR :: int where "NN_SURVEYOR = 98"

definition NN_LINGER :: int where "NN_LINGER = 1"
definition NN_SNDBUF :: int where "NN_SNDBUF = 2"
definition NN_RCVBUF :: int where "NN_RCVBUF = 3"
definition NN_SNDTIMEO :: int where "NN_SNDTIMEO = 4"
definition NN_RCVTIMEO :: int where "NN_RCVTIMEO = 5"
definition NN_RECONNECT_IVL :: int where "NN_RECONNECT_IVL = 6"
definition NN_RECONNECT_IVL_MAX :: int where "NN_RECONNECT_IVL_MAX = 7"
definition NN_SNDPRIO :: int where "NN_SNDPRIO = 8"
definition NN_RCVPRIO :: int where "NN_RCVPRIO = 9"
definition NN_SNDFD :: int where "NN_SNDFD = 10"
definition NN_RCVFD :: int where "NN_RCVFD = 11"
definition NN_DOMAIN :: int where "NN_DOMAIN = 12"
definition NN_PROTOCOL :: int where "NN_PROTOCOL = 13"
definition NN_IPV4ONLY :: int where "NN_IPV4ONLY = 14"
definition NN_SOCKET_NAME :: int where "NN_SOCKET_NAME = 15"
definition NN_RCVMAXSIZE :: int where "NN_RCVMAXSIZE = 16"
definition NN_MAXTTL :: int where "NN_MAXTTL = 17"

definition NN_REQ_RESEND_IVL :: int where "NN_REQ_RESEND_IVL = 1"
definition NN_SUB_SUBSCRIBE :: int where "NN_SUB_SUBSCRIBE = 1"
definition NN_SUB_UNSUBSCRIBE :: int where "NN_SUB_UNSUBSCRIBE = 2"
definition NN_SURVEY_DEADLINE :: int where "NN_SURVEY_DEADLINE = 1"

lemmas nn_level_defs = NN_SOL_SOCKET_def NN_SUB_def NN_REQ_def NN_SURVEYOR_def

lemmas nn_option_defs =
  NN_LINGER_def NN_SNDBUF_def NN_RCVBUF_def NN_SNDTIMEO_def NN_RCVTIMEO_def
  NN_RECONNECT_IVL_def NN_RECONNECT_IVL_MAX_def NN_SNDPRIO_def NN_RCVPRIO_def NN_SNDFD_def
  NN_RCVFD_def NN_DOMAIN_def NN_PROTOCOL_def NN_IPV4ONLY_def NN_SOCKET_NAME_def
  NN_RCVMAXSIZE_def NN_MAXTTL_def NN_REQ_RESEND_IVL_def NN_SUB_SUBSCRIBE_def
  NN_SUB_UNSUBSCRIBE_def NN_SURVEY_DEADLINE_def

definition NN_DONTWAIT :: int where "NN_DONTWAIT = 1"
definition NNG_FLAG_NONBLOCK :: int where "NNG_FLAG_NONBLOCK = 2"

text \<open>\<open>NN_MSG\<close> is \<open>(size_t) -1\<close>.\<close>

definition NN_MSG :: size_t where
  "NN_MSG = - 1"

definition PROTO_SP :: int where "PROTO_SP = 1"
definition SP_HDR :: int where "SP_HDR = 1"

text \<open>
  Modelled from the spec: the native option identifiers, an enumeration of \<open>nng.h\<close>.
  \<open>NNG_OPT_0\<close> stands for the value 0 that \<open>nn_setsockopt\<close> initialises its local
  \<open>opt\<close> with.
\<close>

datatype nng_opt =
    NNG_OPT_0
  | NNG_OPT_RAW
  | NNG_OPT_LINGER
  | NNG_OPT_SNDBUF
  | NNG_OPT_RCVBUF
  | NNG_OPT_RECONN_TIME
  | NNG_OPT_RECONN_MAXTIME
  | NNG_OPT_SNDFD
  | NNG_OPT_RCVFD
  | NNG_OPT_RCVMAXSZ
  | NNG_OPT_MAXTTL
  | NNG_OPT_RCVTIMEO
  | NNG_OPT_SNDTIMEO
  | NNG_OPT_RESENDTIME
  | NNG_OPT_SUBSCRIBE
  | NNG_OPT_UNSUBSCRIBE
  | NNG_OPT_SURVEYTIME

section \<open>The error table and its two scans\<close>

text \<open>The array \<open>nn_errnos\<close>, pairs \<open>(nerr, perr)\<close>, with its terminating entry.\<close>

definition nn_errnos :: "(int \<times> int) list" where
  "nn_errnos =
    [ (NNG_EINTR, EINTR),
      (NNG_ENOMEM, ENOMEM),
      (NNG_EINVAL, EINVAL),
      (NNG_EBUSY, EBUSY),
      (NNG_ETIMEDOUT, ETIMEDOUT),
      (NNG_ECONNREFUSED, ECONNREFUSED),
      (NNG_ECLOSED, EBADF),
      (NNG_EAGAIN, EAGAIN),
      (NNG_ENOTSUP, ENOTSUP),
      (NNG_EADDRINUSE, EADDRINUSE),
      (NNG_ESTATE, EFSM),
      (NNG_ENOENT, ENOENT),
      (NNG_EPROTO, EPROTO),
      (NNG_EUNREACHABLE, EHOSTUNREACH),
      (NNG_EADDRINVAL, EADDRNOTAVAIL),
      (NNG_EPERM, EACCES),
      (NNG_EMSGSIZE, EMSGSIZE),
      (NNG_ECONNABORTED, ECONNABORTED),
      (NNG_ECONNRESET, ECONNRESET),
      (0, 0) ]"

text \<open>
  The loop of \<open>nn_strerror\<close>: it runs while \<open>perr\<close> is not 0 and stops at the first
  entry whose \<open>perr\<close> is the argument. The result is that entry, or \<open>None\<close> when
  the loop ends at the terminator.
\<close>

fun strerror_scan :: "(int \<times> int) list \<Rightarrow> int \<Rightarrow> (int \<times> int) option" where
  "strerror_scan [] err = None"
| "strerror_scan ((nerr, perr) # es) err =
     (if perr \<noteq> 0 then (if perr = err then Some (nerr, perr) else strerror_scan es err)
      else None)"

text \<open>The loop of \<open>nn_seterror\<close>: the same scan on \<open>nerr\<close>.\<close>

fun seterror_scan :: "(int \<times> int) list \<Rightarrow> int \<Rightarrow> (int \<times> int) option" where
  "seterror_scan [] err = None"
| "seterror_scan ((nerr, perr) # es) err =
     (if nerr \<noteq> 0 then (if nerr = err then Some (nerr, perr) else seterror_scan es err)
      else None)"

text \<open>What \<open>nn_strerror\<close> returns: the native library's string for a native code
  (\<open>nng_strerror\<close> is not among the source files), or a string of its own.\<close>

datatype errtext = Nng_strerror int | Text string

fun digits :: "nat \<Rightarrow> nat \<Rightarrow> string" where
  "digits 0 n = []"
| "digits (Suc fuel) n =
     (if n < 10 then [char_of (48 + n)]
      else digits fuel (n div 10) @ [char_of (48 + n mod 10)])"

text \<open>\<open>%d\<close> of \<open>snprintf\<close>; an \<open>int\<close> has at most ten digits.\<close>

definition show_int :: "int \<Rightarrow> string" where
  "show_int k = (if k < 0 then CHR ''-'' # digits 10 (nat (- k)) else digits 10 (nat k))"

definition nn_strerror :: "int \<Rightarrow> errtext" where
  "nn_strerror err =
     (case strerror_scan nn_errnos err of
        Some (nerr, perr) \<Rightarrow> Nng_strerror nerr
      | None \<Rightarrow>
          if err = EIO then Text ''Unknown I/O error''
          else Text (take 31 (''Unknown error '' @ show_int err)))"

text \<open>The value \<open>nn_seterror\<close> stores in \<open>errno\<close>.\<close>

definition to_posix :: "int \<Rightarrow> int" where
  "to_posix err =
     (case seterror_scan nn_errnos err of
        Some (nerr, perr) \<Rightarrow> perr
      | None \<Rightarrow> EIO)"

section \<open>Memory and the native layer\<close>

text \<open>
  Memory is a store from addresses to bytes. A multi-byte object is stored with its
  least significant byte first.
\<close>

type_synonym memory = "addr \<Rightarrow> byte"

definition load_bytes :: "memory \<Rightarrow> addr \<Rightarrow> nat \<Rightarrow> byte list" where
  "load_bytes m a n = map (\<lambda>i. m (a + of_nat i)) [0..<n]"

definition store_bytes :: "memory \<Rightarrow> addr \<Rightarrow> byte list \<Rightarrow> memory" where
  "store_bytes m a bs = (\<lambda>x. if unat (x - a) < length bs then bs ! unat (x - a) else m x)"

definition load_ptr :: "memory \<Rightarrow> addr \<Rightarrow> 64 word" where
  "load_ptr m a = word_rcat (rev (load_bytes m a 8))"

definition ptr_bytes :: "64 word \<Rightarrow> byte list" where
  "ptr_bytes v = map (\<lambda>i. ucast (drop_bit (8 * i) v)) [0..<8]"

definition store_ptr :: "memory \<Rightarrow> addr \<Rightarrow> 64 word \<Rightarrow> memory" where
  "store_ptr m a v = store_bytes m a (ptr_bytes v)"

definition load_int :: "memory \<Rightarrow> addr \<Rightarrow> 32 word" where
  "load_int m a = word_rcat (rev (load_bytes m a 4))"

text \<open>
  A native message, as far as the shim can observe it through \<open>nng_msg_body\<close>,
  \<open>nng_msg_len\<close>, \<open>nng_msg_header\<close> and \<open>nng_msg_header_len\<close>: the body is the
  \<open>body_len\<close> bytes of memory at \<open>body_ptr\<close>; the header region is kept as a list.
\<close>

record nng_msg =
  body_ptr :: addr
  body_len :: size_t
  header :: "byte list"

text \<open>The value a caller hands to \<open>nng_setopt\<close>: its own pointer, or the address of
  the local \<open>usec\<close>, given by what \<open>usec\<close> holds.\<close>

datatype valptr = Caller_ptr addr | Local_usec "64 word"

text \<open>
  The calls into the native layer that change its state, and the \<open>memcpy\<close> and
  \<open>memset\<close> calls between two regions of memory, in the order made.
\<close>

datatype event =
    Ev_setopt int nng_opt valptr size_t
  | Ev_recvmsg int int
  | Ev_sendmsg int handle int
  | Ev_msg_alloc size_t
  | Ev_msg_free handle
  | Ev_msg_realloc handle size_t
  | Ev_msg_trim handle size_t
  | Ev_msg_prepend handle size_t
  | Ev_msg_append_header handle addr size_t
  | Ev_memcpy addr addr size_t
  | Ev_memset addr size_t

text \<open>
  The state a call of the shim works on: memory, the live native messages by handle (the
  value of an \<open>nng_msg *\<close>), \<open>errno\<close>, and the calls made so far.
\<close>

record world =
  mem :: memory
  msgs :: "handle \<rightharpoonup> nng_msg"
  errno :: int
  calls :: "event list"

text \<open>
  What the native layer decides during one call of the shim: the return value of each
  native function that can fail, the handle and body address a successful allocation
  yields, the body address after a successful resize or prepend, and the message a
  successful receive delivers. Every native function is called at most once per call of
  the shim, except the ones whose outcome the state determines.
\<close>

record env =
  setopt_rv :: int
  alloc_rv :: int
  alloc_handle :: handle
  alloc_body :: addr
  realloc_rv :: int
  realloc_body :: addr
  prepend_rv :: int
  prepend_body :: addr
  append_rv :: int
  send_rv :: int
  recv_rv :: int
  recv_handle :: handle
  recv_msg :: nng_msg

definition log :: "event \<Rightarrow> world \<Rightarrow> world" where
  "log ev w = w\<lparr>calls := calls w @ [ev]\<rparr>"

text \<open>
  Modelled from the spec: the native primitives of section 6 (\<open>set-option\<close>,
  \<open>allocate\<close>, \<open>free\<close>, \<open>resize\<close>, \<open>body-pointer\<close>, \<open>body-length\<close>, \<open>header-length\<close>,
  \<open>trim-bytes\<close>, \<open>prepend-bytes\<close>, \<open>append-header-bytes\<close>, \<open>send-message\<close>,
  \<open>receive-message\<close>), which are not among the source files. A primitive applied to
  a handle that is not live is undefined behaviour: the result \<open>None\<close>. A primitive
  that fails leaves the state as it was.
\<close>

definition nng_setopt :: "env \<Rightarrow> world \<Rightarrow> int \<Rightarrow> nng_opt \<Rightarrow> valptr \<Rightarrow> size_t \<Rightarrow> int \<times> world" where
  "nng_setopt e w s opt valp sz = (setopt_rv e, log (Ev_setopt s opt valp sz) w)"

definition nng_msg_alloc :: "env \<Rightarrow> world \<Rightarrow> size_t \<Rightarrow> (int + handle) \<times> world" where
  "nng_msg_alloc e w sz =
     (if alloc_rv e \<noteq> 0 then (Inl (alloc_rv e), log (Ev_msg_alloc sz) w)
      else (Inr (alloc_handle e),
            log (Ev_msg_alloc sz)
              (w\<lparr>msgs := (msgs w)(alloc_handle e \<mapsto>
                    \<lparr>body_ptr = alloc_body e, body_len = sz, header = []\<rparr>)\<rparr>)))"

definition nng_msg_free :: "world \<Rightarrow> handle \<Rightarrow> world option" where
  "nng_msg_free w h =
     (case msgs w h of
        None \<Rightarrow> None
      | Some m \<Rightarrow> Some (log (Ev_msg_free h) (w\<lparr>msgs := (msgs w)(h := None)\<rparr>)))"

definition nng_msg_body :: "world \<Rightarrow> handle \<Rightarrow> addr option" where
  "nng_msg_body w h = map_option body_ptr (msgs w h)"

definition nng_msg_len :: "world \<Rightarrow> handle \<Rightarrow> size_t option" where
  "nng_msg_len w h = map_option body_len (msgs w h)"

definition nng_msg_header_len :: "world \<Rightarrow> handle \<Rightarrow> size_t option" where
  "nng_msg_header_len w h = map_option (\<lambda>m. of_nat (length (header m))) (msgs w h)"

text \<open>Modelled from the spec: \<open>trim-bytes\<close>. Trimming moves the body pointer forward;
  the bytes stay where they are, as the comment in \<open>nn_allocmsg\<close> counts on.\<close>

definition nng_msg_trim :: "world \<Rightarrow> handle \<Rightarrow> size_t \<Rightarrow> (int \<times> world) option" where
  "nng_msg_trim w h n =
     (case msgs w h of
        None \<Rightarrow> None
      | Some m \<Rightarrow>
          if body_len m < n then Some (NNG_EINVAL, log (Ev_msg_trim h n) w)
          else Some (0, log (Ev_msg_trim h n)
                 (w\<lparr>msgs := (msgs w)(h \<mapsto> m\<lparr>body_ptr := body_ptr m + n,
                                               body_len := body_len m - n\<rparr>)\<rparr>)))"

text \<open>Modelled from the spec: \<open>resize\<close>. A successful resize may move the body; the
  bytes that both sizes cover are kept.\<close>

definition nng_msg_realloc :: "env \<Rightarrow> world \<Rightarrow> handle \<Rightarrow> size_t \<Rightarrow> (int \<times> world) option" where
  "nng_msg_realloc e w h sz =
     (case msgs w h of
        None \<Rightarrow> None
      | Some m \<Rightarrow>
          if realloc_rv e \<noteq> 0 then Some (realloc_rv e, log (Ev_msg_realloc h sz) w)
          else Some (0, log (Ev_msg_realloc h sz)
                 (w\<lparr>mem := store_bytes (mem w) (realloc_body e)
                              (load_bytes (mem w) (body_ptr m) (unat (min (body_len m) sz))),
                    msgs := (msgs w)(h \<mapsto> m\<lparr>body_ptr := realloc_body e,
                                               body_len := sz\<rparr>)\<rparr>)))"

text \<open>Modelled from the spec: \<open>prepend-bytes\<close> and \<open>append-header-bytes\<close>. A
  successful prepend puts the new bytes in front of the body, which may move.\<close>

definition nng_msg_prepend :: "env \<Rightarrow> world \<Rightarrow> handle \<Rightarrow> byte list \<Rightarrow> (int \<times> world) option" where
  "nng_msg_prepend e w h bs =
     (case msgs w h of
        None \<Rightarrow> None
      | Some m \<Rightarrow>
          if prepend_rv e \<noteq> 0
          then Some (prepend_rv e, log (Ev_msg_prepend h (of_nat (length bs))) w)
          else Some (0, log (Ev_msg_prepend h (of_nat (length bs)))
                 (w\<lparr>mem := store_bytes
                              (store_bytes (mem w) (prepend_body e + of_nat (length bs))
                                 (load_bytes (mem w) (body_ptr m) (unat (body_len m))))
                              (prepend_body e) bs,
                    msgs := (msgs w)(h \<mapsto> m\<lparr>body_ptr := prepend_body e,
                                               body_len := body_len m + of_nat (length bs)\<rparr>)\<rparr>)))"

definition nng_msg_append_header ::
  "env \<Rightarrow> world \<Rightarrow> handle \<Rightarrow> addr \<Rightarrow> size_t \<Rightarrow> (int \<times> world) option" where
  "nng_msg_append_header e w h data n =
     (case msgs w h of
        None \<Rightarrow> None
      | Some m \<Rightarrow>
          if append_rv e \<noteq> 0 then Some (append_rv e, log (Ev_msg_append_header h data n) w)
          else Some (0, log (Ev_msg_append_header h data n)
                 (w\<lparr>msgs := (msgs w)(h \<mapsto>
                       m\<lparr>header := header m @ load_bytes (mem w) data (unat n)\<rparr>)\<rparr>)))"

text \<open>Modelled from the spec: \<open>send-message\<close> and \<open>receive-message\<close>. A successful
  send takes the message over: the handle is no longer live.\<close>

definition nng_sendmsg :: "env \<Rightarrow> world \<Rightarrow> int \<Rightarrow> handle \<Rightarrow> int \<Rightarrow> (int \<times> world) option" where
  "nng_sendmsg e w s h flags =
     (case msgs w h of
        None \<Rightarrow> None
      | Some m \<Rightarrow>
          if send_rv e \<noteq> 0 then Some (send_rv e, log (Ev_sendmsg s h flags) w)
          else Some (0, log (Ev_sendmsg s h flags) (w\<lparr>msgs := (msgs w)(h := None)\<rparr>)))"

definition nng_recvmsg :: "env \<Rightarrow> world \<Rightarrow> int \<Rightarrow> int \<Rightarrow> (int + handle) \<times> world" where
  "nng_recvmsg e w s flags =
     (if recv_rv e \<noteq> 0 then (Inl (recv_rv e), log (Ev_recvmsg s flags) w)
      else (Inr (recv_handle e),
            log (Ev_recvmsg s flags) (w\<lparr>msgs := (msgs w)(recv_handle e \<mapsto> recv_msg e)\<rparr>)))"

definition memcpy :: "world \<Rightarrow> addr \<Rightarrow> addr \<Rightarrow> size_t \<Rightarrow> world" where
  "memcpy w dst src n =
     log (Ev_memcpy dst src n)
       (w\<lparr>mem := store_bytes (mem w) dst (load_bytes (mem w) src (unat n))\<rparr>)"

definition memset0 :: "world \<Rightarrow> addr \<Rightarrow> size_t \<Rightarrow> world" where
  "memset0 w dst n =
     log (Ev_memset dst n) (w\<lparr>mem := store_bytes (mem w) dst (replicate (unat n) 0)\<rparr>)"

section \<open>The shim\<close>

definition nn_seterror :: "world \<Rightarrow> int \<Rightarrow> world" where
  "nn_seterror w err = w\<lparr>errno := to_posix err\<rparr>"

subsection \<open>\<open>nn_allocmsg\<close> and \<open>nn_reallocmsg\<close>\<close>

definition nn_allocmsg :: "env \<Rightarrow> world \<Rightarrow> size_t \<Rightarrow> int \<Rightarrow> (addr \<times> world) option" where
  "nn_allocmsg e w sz type =
     (if type \<noteq> 0 \<or> sz < 1 \<or> sz + sizeof_msg < sz
      then Some (NULL, nn_seterror w NNG_EINVAL)
      else
        case nng_msg_alloc e w (sz + sizeof_msg) of
          (Inl rv, w1) \<Rightarrow> Some (NULL, nn_seterror w1 rv)
        | (Inr msg, w1) \<Rightarrow> do {
            p \<leftarrow> nng_msg_body w1 msg;
            let w2 = w1\<lparr>mem := store_ptr (mem w1) p msg\<rparr>;
            (rv, w3) \<leftarrow> nng_msg_trim w2 msg sizeof_msg;
            q \<leftarrow> nng_msg_body w3 msg;
            Some (q, w3)
          })"

definition nn_reallocmsg :: "env \<Rightarrow> world \<Rightarrow> addr \<Rightarrow> size_t \<Rightarrow> (addr \<times> world) option" where
  "nn_reallocmsg e w ptr len =
     (if len + sizeof_msg < len
      then Some (NULL, nn_seterror w NNG_EINVAL)
      else do {
        let msg = load_ptr (mem w) (ptr - sizeof_msg);
        (rv, w1) \<leftarrow> nng_msg_realloc e w msg (len + sizeof_msg);
        if rv \<noteq> 0 then Some (NULL, nn_seterror w1 rv)
        else do {
          p \<leftarrow> nng_msg_body w1 msg;
          let w2 = w1\<lparr>mem := store_ptr (mem w1) p msg\<rparr>;
          (rv', w3) \<leftarrow> nng_msg_trim w2 msg sizeof_msg;
          q \<leftarrow> nng_msg_body w3 msg;
          Some (q, w3)
        }
      })"

subsection \<open>\<open>nn_flags\<close>\<close>

definition nn_flags :: "world \<Rightarrow> int \<Rightarrow> int \<times> world" where
  "nn_flags w flags =
     (if flags = 0 then (0, w)
      else if flags = NN_DONTWAIT then (NNG_FLAG_NONBLOCK, w)
      else (- 1, nn_seterror w NNG_EINVAL))"

subsection \<open>Scatter/gather descriptors\<close>

text \<open>
  \<open>msg_iov\<close> is the array the descriptor points to; \<open>msg_iovlen\<close> is the count the
  descriptor states, which the code trusts. Reading an element the array does not have
  is undefined behaviour (\<open>None\<close>).
\<close>

record nn_iovec =
  iov_base :: addr
  iov_len :: size_t

record nn_msghdr =
  msg_iov :: "nn_iovec list"
  msg_iovlen :: int
  msg_control :: addr
  msg_controllen :: size_t

definition iov_at :: "nn_msghdr \<Rightarrow> nat \<Rightarrow> nn_iovec option" where
  "iov_at mh i = (if i < length (msg_iov mh) then Some (msg_iov mh ! i) else None)"

text \<open>The elements a loop \<open>for (i = 0; i < mh->msg_iovlen; i++)\<close> reads, in order.\<close>

definition iov_range :: "nn_msghdr \<Rightarrow> nn_iovec option list" where
  "iov_range mh = map (iov_at mh) [0..<nat (msg_iovlen mh)]"

text \<open>
  How a block of a function ends: it has set \<open>errno\<close> and the function returns \<open>-1\<close>
  (\<open>Failed\<close>), or control goes on with a value (\<open>Next\<close>).
\<close>

datatype 'a flow = Failed world | Next 'a world

text \<open>
  Modelled from the spec: the control-header macros and \<open>struct nn_cmsghdr\<close> of the
  legacy header, which is not among the source files. The record is a \<open>size_t\<close>
  length followed by two \<open>int\<close>s (16 bytes), lengths are rounded up to a multiple of
  \<open>sizeof (size_t)\<close>, and the data follows the record.
\<close>

definition sizeof_cmsghdr :: size_t where
  "sizeof_cmsghdr = 16"

definition NN_CMSG_ALIGN :: "size_t \<Rightarrow> size_t" where
  "NN_CMSG_ALIGN len = (len + 7) AND NOT 7"

definition NN_CMSG_SPACE :: "size_t \<Rightarrow> size_t" where
  "NN_CMSG_SPACE len = NN_CMSG_ALIGN len + NN_CMSG_ALIGN sizeof_cmsghdr"

definition NN_CMSG_DATA :: "addr \<Rightarrow> addr" where
  "NN_CMSG_DATA cmsg = cmsg + sizeof_cmsghdr"

definition int_bytes :: "int \<Rightarrow> byte list" where
  "int_bytes k = map (\<lambda>i. ucast (drop_bit (8 * i) (word_of_int k :: 32 word))) [0..<4]"

definition store_cmsghdr :: "memory \<Rightarrow> addr \<Rightarrow> size_t \<Rightarrow> int \<Rightarrow> int \<Rightarrow> memory" where
  "store_cmsghdr m hdr len level type =
     store_bytes (store_bytes (store_ptr m hdr len) (hdr + 8) (int_bytes level))
       (hdr + 12) (int_bytes type)"

subsection \<open>\<open>nn_recvmsg\<close>\<close>

text \<open>The branch for a single buffer of length \<open>NN_MSG\<close>: the message is handed to the
  caller, its handle hidden in front of the body. The result is \<open>len\<close>.\<close>

definition recv_adopt :: "env \<Rightarrow> world \<Rightarrow> handle \<Rightarrow> addr \<Rightarrow> size_t flow option" where
  "recv_adopt e w msg base = do {
     (rv, w1) \<leftarrow> nng_msg_prepend e w msg (ptr_bytes msg);
     if rv \<noteq> 0 then do {
       w2 \<leftarrow> nng_msg_free w1 msg;
       Some (Failed (nn_seterror w2 rv))
     } else do {
       (rv', w2) \<leftarrow> nng_msg_trim w1 msg sizeof_msg;
       p \<leftarrow> nng_msg_body w2 msg;
       let w3 = w2\<lparr>mem := store_ptr (mem w2) base p\<rparr>;
       len \<leftarrow> nng_msg_len w3 msg;
       Some (Next len w3)
     }
   }"

text \<open>The copy loop, on the elements still to visit, with the locals \<open>ptr\<close> and \<open>len\<close>.\<close>

fun copyout :: "world \<Rightarrow> handle \<Rightarrow> nn_iovec option list \<Rightarrow> addr \<Rightarrow> size_t \<Rightarrow> unit flow option" where
  "copyout w msg [] ptr len = Some (Next () w)"
| "copyout w msg (None # vs) ptr len = None"
| "copyout w msg (Some v # vs) ptr len =
     (if iov_len v = NN_MSG then do {
        w2 \<leftarrow> nng_msg_free (nn_seterror w NNG_EINVAL) msg;
        Some (Failed w2)
      } else
        let n = (if iov_len v > len then len else iov_len v)
        in copyout (memcpy w (iov_base v) ptr n) msg vs (ptr + n) (len - n))"

text \<open>The two branches after the receive. The result is \<open>(len, keep)\<close>.\<close>

definition recv_copyout :: "world \<Rightarrow> nn_msghdr \<Rightarrow> handle \<Rightarrow> (size_t \<times> bool) flow option" where
  "recv_copyout w mh msg = do {
     ptr \<leftarrow> nng_msg_body w msg;
     len \<leftarrow> nng_msg_len w msg;
     r \<leftarrow> copyout w msg (iov_range mh) ptr len;
     case r of
       Failed w1 \<Rightarrow> Some (Failed w1)
     | Next u w1 \<Rightarrow> do {
         len' \<leftarrow> nng_msg_len w1 msg;
         Some (Next (len', False) w1)
       }
   }"

definition recv_body :: "env \<Rightarrow> world \<Rightarrow> nn_msghdr \<Rightarrow> handle \<Rightarrow> (size_t \<times> bool) flow option" where
  "recv_body e w mh msg =
     (if msg_iovlen mh = 1 then
        case iov_at mh 0 of
          None \<Rightarrow> None
        | Some v \<Rightarrow>
            if iov_len v = NN_MSG then do {
              r \<leftarrow> recv_adopt e w msg (iov_base v);
              case r of
                Failed w1 \<Rightarrow> Some (Failed w1)
              | Next len w1 \<Rightarrow> Some (Next (len, True) w1)
            } else recv_copyout w mh msg
      else recv_copyout w mh msg)"

text \<open>The last block of the control part: the record and the header bytes are written
  when the space suffices.\<close>

definition fill_control :: "world \<Rightarrow> handle \<Rightarrow> addr \<Rightarrow> size_t \<Rightarrow> size_t \<Rightarrow> world option" where
  "fill_control w msg cdata clen tlen =
     (if clen \<le> tlen then do {
        m \<leftarrow> msgs w msg;
        hl \<leftarrow> nng_msg_header_len w msg;
        let m1 = store_cmsghdr (mem w) cdata hl PROTO_SP SP_HDR;
        Some (w\<lparr>mem := store_bytes m1 (NN_CMSG_DATA cdata) (header m)\<rparr>)
      } else Some w)"

definition recv_control :: "env \<Rightarrow> world \<Rightarrow> nn_msghdr \<Rightarrow> handle \<Rightarrow> unit flow option" where
  "recv_control e w mh msg =
     (if msg_control mh = NULL then Some (Next () w)
      else do {
        hl \<leftarrow> nng_msg_header_len w msg;
        let clen = NN_CMSG_SPACE hl;
        let tlen = msg_controllen mh;
        if tlen = NN_MSG then
          case nng_msg_alloc e w (clen + sizeof_msg) of
            (Inl rv, w1) \<Rightarrow> do {
              w2 \<leftarrow> nng_msg_free w1 msg;
              Some (Failed (nn_seterror w2 rv))
            }
          | (Inr nmsg, w1) \<Rightarrow> do {
              p \<leftarrow> nng_msg_body w1 nmsg;
              let w2 = w1\<lparr>mem := store_ptr (mem w1) p nmsg\<rparr>;
              (rv', w3) \<leftarrow> nng_msg_trim w2 nmsg sizeof_msg;
              cdata \<leftarrow> nng_msg_body w3 nmsg;
              let w4 = w3\<lparr>mem := store_ptr (mem w3) (msg_control mh) cdata\<rparr>;
              w5 \<leftarrow> fill_control w4 msg cdata clen clen;
              Some (Next () w5)
            }
        else do {
          let cdata = msg_control mh;
          let w1 = memset0 w cdata (if tlen > sizeof_cmsghdr then sizeof_cmsghdr else tlen);
          w2 \<leftarrow> fill_control w1 msg cdata clen tlen;
          Some (Next () w2)
        }
      })"

definition nn_recvmsg :: "env \<Rightarrow> world \<Rightarrow> int \<Rightarrow> nn_msghdr option \<Rightarrow> int \<Rightarrow> (int \<times> world) option" where
  "nn_recvmsg e w s mh flags =
     (case nn_flags w flags of (fl, w0) \<Rightarrow>
        if fl = - 1 then Some (- 1, w0)
        else case mh of
          None \<Rightarrow> Some (- 1, nn_seterror w0 NNG_EINVAL)
        | Some h \<Rightarrow>
            if msg_iovlen h < 0 then Some (- 1, nn_seterror w0 NNG_EMSGSIZE)
            else case nng_recvmsg e w0 s fl of
              (Inl rv, w1) \<Rightarrow> Some (- 1, nn_seterror w1 rv)
            | (Inr msg, w1) \<Rightarrow> do {
                r \<leftarrow> recv_body e w1 h msg;
                case r of
                  Failed w2 \<Rightarrow> Some (- 1, w2)
                | Next (len, keep) w2 \<Rightarrow> do {
                    c \<leftarrow> recv_control e w2 h msg;
                    case c of
                      Failed w3 \<Rightarrow> Some (- 1, w3)
                    | Next u w3 \<Rightarrow> do {
                        w4 \<leftarrow> (if keep then Some w3 else nng_msg_free w3 msg);
                        Some (int_of_size len, w4)
                      }
                  }
              })"

subsection \<open>\<open>nn_sendmsg\<close>\<close>

text \<open>The loop that adds up the buffer lengths in \<open>sz\<close>.\<close>

fun iov_total :: "nn_iovec option list \<Rightarrow> size_t \<Rightarrow> size_t option" where
  "iov_total [] sz = Some sz"
| "iov_total (None # vs) sz = None"
| "iov_total (Some v # vs) sz = iov_total vs (sz + iov_len v)"

text \<open>The loop that copies the buffers into the new message, with the local \<open>ptr\<close>.\<close>

fun copyin :: "world \<Rightarrow> nn_iovec option list \<Rightarrow> addr \<Rightarrow> world option" where
  "copyin w [] ptr = Some w"
| "copyin w (None # vs) ptr = None"
| "copyin w (Some v # vs) ptr =
     copyin (memcpy w ptr (iov_base v) (iov_len v)) vs (ptr + iov_len v)"

definition send_gather_copy :: "env \<Rightarrow> world \<Rightarrow> nn_msghdr \<Rightarrow> (handle \<times> bool) flow option" where
  "send_gather_copy e w mh = do {
     sz \<leftarrow> iov_total (iov_range mh) 0;
     case nng_msg_alloc e w sz of
       (Inl rv, w1) \<Rightarrow> Some (Failed (nn_seterror w1 rv))
     | (Inr msg, w1) \<Rightarrow> do {
         ptr \<leftarrow> nng_msg_body w1 msg;
         w2 \<leftarrow> copyin w1 (iov_range mh) ptr;
         Some (Next (msg, False) w2)
       }
   }"

text \<open>The message to send and whether it is the caller's (\<open>keep\<close>).\<close>

definition send_gather :: "env \<Rightarrow> world \<Rightarrow> nn_msghdr \<Rightarrow> (handle \<times> bool) flow option" where
  "send_gather e w mh =
     (if msg_iovlen mh = 1 then
        case iov_at mh 0 of
          None \<Rightarrow> None
        | Some v \<Rightarrow>
            if iov_len v = NN_MSG
            then Some (Next (load_ptr (mem w) (iov_base v - sizeof_msg), True) w)
            else send_gather_copy e w mh
      else send_gather_copy e w mh)"

text \<open>The control envelope a descriptor names: the handle hidden in front of the
  address stored at \<open>msg_control\<close>.\<close>

definition control_envelope :: "world \<Rightarrow> nn_msghdr \<Rightarrow> handle" where
  "control_envelope w mh = load_ptr (mem w) (load_ptr (mem w) (msg_control mh) - sizeof_msg)"

text \<open>The control part. The result is \<open>cmsg\<close> (\<open>NULL\<close> when the control data is not
  an envelope).\<close>

definition send_control ::
  "env \<Rightarrow> world \<Rightarrow> nn_msghdr \<Rightarrow> handle \<Rightarrow> bool \<Rightarrow> handle flow option" where
  "send_control e w mh msg keep =
     (if msg_control mh = NULL then Some (Next NULL w)
      else do {
        (cdata, cmsg, clen) \<leftarrow>
          (if msg_controllen mh = NN_MSG then do {
             let cdata = load_ptr (mem w) (msg_control mh);
             let cmsg = load_ptr (mem w) (cdata - sizeof_msg);
             clen \<leftarrow> nng_msg_len w cmsg;
             Some (cdata, cmsg, clen)
           } else Some (msg_control mh, NULL, msg_controllen mh));
        (rv, w1) \<leftarrow> nng_msg_append_header e w msg cdata clen;
        if rv \<noteq> 0 then do {
          w2 \<leftarrow> (if \<not> keep then nng_msg_free w1 msg else Some w1);
          Some (Failed (nn_seterror w2 rv))
        } else Some (Next cmsg w1)
      })"

definition nn_sendmsg :: "env \<Rightarrow> world \<Rightarrow> int \<Rightarrow> nn_msghdr option \<Rightarrow> int \<Rightarrow> (int \<times> world) option" where
  "nn_sendmsg e w s mh flags =
     (case nn_flags w flags of (fl, w0) \<Rightarrow>
        if fl = - 1 then Some (- 1, w0)
        else case mh of
          None \<Rightarrow> Some (- 1, nn_seterror w0 NNG_EINVAL)
        | Some h \<Rightarrow>
            if msg_iovlen h < 0 then Some (- 1, nn_seterror w0 NNG_EMSGSIZE)
            else do {
              g \<leftarrow> send_gather e w0 h;
              case g of
                Failed w1 \<Rightarrow> Some (- 1, w1)
              | Next (msg, keep) w1 \<Rightarrow> do {
                  c \<leftarrow> send_control e w1 h msg keep;
                  case c of
                    Failed w2 \<Rightarrow> Some (- 1, w2)
                  | Next cmsg w2 \<Rightarrow> do {
                      sz \<leftarrow> nng_msg_len w2 msg;
                      (rv, w3) \<leftarrow> nng_sendmsg e w2 s msg fl;
                      if rv \<noteq> 0 then do {
                        w4 \<leftarrow> (if \<not> keep then nng_msg_free w3 msg else Some w3);
                        Some (- 1, nn_seterror w4 rv)
                      } else do {
                        w4 \<leftarrow> (if cmsg \<noteq> NULL then nng_msg_free w3 cmsg else Some w3);
                        Some (int_of_size sz, w4)
                      }
                    }
                }
            })"

subsection \<open>\<open>nn_setsockopt\<close>\<close>

text \<open>
  The locals \<open>opt\<close> and \<open>mscvt\<close>, and how the body of a \<open>case\<close> label of the outer
  \<open>switch\<close> ends: with \<open>break\<close>, with \<open>return (-1)\<close> after setting \<open>errno\<close>, or by
  reaching its end, where control falls into the body of the next label.
\<close>

record optsel =
  opt :: nng_opt
  mscvt :: int

datatype ctl = Brk optsel | Ret int | Fall optsel

text \<open>\<open>case NN_SOL_SOCKET\<close>: an inner \<open>switch\<close>, then \<open>break\<close>.\<close>

definition case_SOL_SOCKET :: "int \<Rightarrow> optsel \<Rightarrow> ctl" where
  "case_SOL_SOCKET nnopt st =
     (if nnopt = NN_LINGER then Brk (st\<lparr>opt := NNG_OPT_LINGER\<rparr>)
      else if nnopt = NN_SNDBUF then Brk (st\<lparr>opt := NNG_OPT_SNDBUF\<rparr>)
      else if nnopt = NN_RCVBUF then Brk (st\<lparr>opt := NNG_OPT_RCVBUF\<rparr>)
      else if nnopt = NN_RECONNECT_IVL then Brk (st\<lparr>opt := NNG_OPT_RECONN_TIME, mscvt := 1\<rparr>)
      else if nnopt = NN_RECONNECT_IVL_MAX
        then Brk (st\<lparr>opt := NNG_OPT_RECONN_MAXTIME, mscvt := 1\<rparr>)
      else if nnopt = NN_SNDFD then Brk (st\<lparr>opt := NNG_OPT_SNDFD\<rparr>)
      else if nnopt = NN_RCVFD then Brk (st\<lparr>opt := NNG_OPT_RCVFD\<rparr>)
      else if nnopt = NN_RCVMAXSIZE then Brk (st\<lparr>opt := NNG_OPT_RCVMAXSZ\<rparr>)
      else if nnopt = NN_MAXTTL then Brk (st\<lparr>opt := NNG_OPT_MAXTTL\<rparr>)
      else if nnopt = NN_RCVTIMEO then Brk (st\<lparr>opt := NNG_OPT_RCVTIMEO, mscvt := 1\<rparr>)
      else if nnopt = NN_SNDTIMEO then Brk (st\<lparr>opt := NNG_OPT_SNDTIMEO, mscvt := 1\<rparr>)
      else Ret ENOPROTOOPT)"

text \<open>\<open>case NN_REQ\<close>: an inner \<open>switch\<close>, then \<open>break\<close>.\<close>

definition case_REQ :: "int \<Rightarrow> optsel \<Rightarrow> ctl" where
  "case_REQ nnopt st =
     (if nnopt = NN_REQ_RESEND_IVL then Brk (st\<lparr>opt := NNG_OPT_RESENDTIME, mscvt := 1\<rparr>)
      else Ret ENOPROTOOPT)"

text \<open>\<open>case NN_SUB\<close>: an inner \<open>switch\<close>, then \<open>break\<close>.\<close>

definition case_SUB :: "int \<Rightarrow> optsel \<Rightarrow> ctl" where
  "case_SUB nnopt st =
     (if nnopt = NN_SUB_SUBSCRIBE then Brk (st\<lparr>opt := NNG_OPT_SUBSCRIBE\<rparr>)
      else if nnopt = NN_SUB_UNSUBSCRIBE then Brk (st\<lparr>opt := NNG_OPT_UNSUBSCRIBE\<rparr>)
      else Ret ENOPROTOOPT)"

text \<open>\<open>case NN_SURVEYOR\<close>: an inner \<open>switch\<close>, whose \<open>break\<close> leaves the inner
  \<open>switch\<close> only; no \<open>break\<close> follows it, and the next label is \<open>default\<close>.\<close>

definition case_SURVEYOR :: "int \<Rightarrow> optsel \<Rightarrow> ctl" where
  "case_SURVEYOR nnopt st =
     (if nnopt = NN_SURVEY_DEADLINE then Fall (st\<lparr>opt := NNG_OPT_SURVEYTIME, mscvt := 1\<rparr>)
      else Ret ENOPROTOOPT)"

text \<open>\<open>default\<close> of the outer \<open>switch\<close>.\<close>

definition case_default :: "optsel \<Rightarrow> ctl" where
  "case_default st = Ret ENOPROTOOPT"

text \<open>Running the bodies from a label on: a body that reaches its end hands over to the
  next one, and the end of the last one is the end of the \<open>switch\<close>.\<close>

fun run_bodies :: "(optsel \<Rightarrow> ctl) list \<Rightarrow> optsel \<Rightarrow> ctl" where
  "run_bodies [] st = Brk st"
| "run_bodies (b # bs) st =
     (case b st of
        Fall st' \<Rightarrow> run_bodies bs st'
      | Brk st' \<Rightarrow> Brk st'
      | Ret err \<Rightarrow> Ret err)"

text \<open>A \<open>switch\<close> whose \<open>default\<close> label is the last: control jumps to the first label
  that equals the value, or to \<open>default\<close>.\<close>

fun switch_on :: "int \<Rightarrow> (int \<times> (optsel \<Rightarrow> ctl)) list \<Rightarrow> (optsel \<Rightarrow> ctl) \<Rightarrow> optsel \<Rightarrow> ctl" where
  "switch_on v [] dflt st = run_bodies [dflt] st"
| "switch_on v ((l, b) # cs) dflt st =
     (if v = l then run_bodies (b # map snd cs @ [dflt]) st else switch_on v cs dflt st)"

definition translate :: "int \<Rightarrow> int \<Rightarrow> ctl" where
  "translate nnlevel nnopt =
     switch_on nnlevel
       [ (NN_SOL_SOCKET, case_SOL_SOCKET nnopt),
         (NN_REQ, case_REQ nnopt),
         (NN_SUB, case_SUB nnopt),
         (NN_SURVEYOR, case_SURVEYOR nnopt) ]
       case_default
       \<lparr>opt = NNG_OPT_0, mscvt = 0\<rparr>"

text \<open>The call of \<open>nng_setopt\<close> and the return that follows it.\<close>

definition setopt_call :: "env \<Rightarrow> world \<Rightarrow> int \<Rightarrow> nng_opt \<Rightarrow> valptr \<Rightarrow> size_t \<Rightarrow> int \<times> world" where
  "setopt_call e w s native_opt valp sz =
     (case nng_setopt e w s native_opt valp sz of
        (rv, w1) \<Rightarrow> if rv \<noteq> 0 then (- 1, nn_seterror w1 rv) else (0, w1))"

text \<open>The code after the \<open>switch\<close>. The assignment \<open>usec = *(int *) valp\<close> converts a
  signed 32-bit value to \<open>uint64_t\<close>; the multiplication is one of \<open>uint64_t\<close>.\<close>

definition setopt_tail :: "env \<Rightarrow> world \<Rightarrow> int \<Rightarrow> optsel \<Rightarrow> addr \<Rightarrow> size_t \<Rightarrow> int \<times> world" where
  "setopt_tail e w s st valp sz =
     (if mscvt st \<noteq> 0 then
        if sz \<noteq> sizeof_int then (- 1, w\<lparr>errno := EINVAL\<rparr>)
        else
          let usec = (scast (load_int (mem w) valp) :: 64 word);
              usec = usec * 1000
          in setopt_call e w s (opt st) (Local_usec usec) sizeof_usec
      else setopt_call e w s (opt st) (Caller_ptr valp) sz)"

definition nn_setsockopt ::
  "env \<Rightarrow> world \<Rightarrow> int \<Rightarrow> int \<Rightarrow> int \<Rightarrow> addr \<Rightarrow> size_t \<Rightarrow> int \<times> world" where
  "nn_setsockopt e w s nnlevel nnopt valp sz =
     (case translate nnlevel nnopt of
        Ret err \<Rightarrow> (- 1, w\<lparr>errno := err\<rparr>)
      | Brk st \<Rightarrow> setopt_tail e w s st valp sz
      | Fall st \<Rightarrow> setopt_tail e w s st valp sz)"

section \<open>The one-time initialiser of the Windows platform\<close>

text \<open>
  \<open>nni_plat_init\<close> run by several threads, as an interleaving of its accesses to the
  two static variables: each step below is one read or write of \<open>inited\<close>, one
  interlocked operation on \<open>initing\<close>, the call of \<open>helper\<close>, or \<open>Sleep\<close>.

  \<open>InterlockedCompareExchange (dest, exchange, comparand)\<close> of the Windows API stores
  \<open>exchange\<close> in \<open>dest\<close> when \<open>dest\<close> holds \<open>comparand\<close>, and returns what \<open>dest\<close>
  held before. It is given here as the new content and the returned value.
\<close>

type_synonym LONG = "32 word"

definition InterlockedCompareExchange :: "LONG \<Rightarrow> LONG \<Rightarrow> LONG \<Rightarrow> LONG \<times> LONG" where
  "InterlockedCompareExchange dest exchange comparand =
     (if dest = comparand then exchange else dest, dest)"

datatype pc =
    At_fast_path
  | At_compare_exchange
  | At_sleep
  | At_check_inited
  | At_helper
  | At_set_inited
  | At_exchange
  | Returned

record plat =
  initing :: LONG
  inited :: LONG
  helper_calls :: nat
  threads :: "pc list"

text \<open>One step of thread \<open>t\<close>.\<close>

definition plat_step :: "plat \<Rightarrow> nat \<Rightarrow> plat" where
  "plat_step p t =
     (if t < length (threads p) then
        case threads p ! t of
          At_fast_path \<Rightarrow>
            p\<lparr>threads := (threads p)[t := (if inited p \<noteq> 0 then Returned else At_compare_exchange)]\<rparr>
        | At_compare_exchange \<Rightarrow>
            (case InterlockedCompareExchange (initing p) 0 1 of
               (dest, old) \<Rightarrow>
                 p\<lparr>initing := dest,
                   threads := (threads p)[t := (if old \<noteq> 0 then At_sleep else At_check_inited)]\<rparr>)
        | At_sleep \<Rightarrow> p\<lparr>threads := (threads p)[t := At_compare_exchange]\<rparr>
        | At_check_inited \<Rightarrow>
            p\<lparr>threads := (threads p)[t := (if inited p = 0 then At_helper else At_exchange)]\<rparr>
        | At_helper \<Rightarrow>
            p\<lparr>helper_calls := Suc (helper_calls p), threads := (threads p)[t := At_set_inited]\<rparr>
        | At_set_inited \<Rightarrow> p\<lparr>inited := 1, threads := (threads p)[t := At_exchange]\<rparr>
        | At_exchange \<Rightarrow> p\<lparr>initing := 0, threads := (threads p)[t := Returned]\<rparr>
        | Returned \<Rightarrow> p
      else p)"

text \<open>A schedule names the thread that takes each step.\<close>

fun plat_run :: "plat \<Rightarrow> nat list \<Rightarrow> plat" where
  "plat_run p [] = p"
| "plat_run p (t # ts) = plat_run (plat_step p t) ts"

text \<open>\<open>n\<close> threads enter \<open>nni_plat_init\<close> before any initialisation has happened.\<close>

definition plat_start :: "nat \<Rightarrow> plat" where
  "plat_start n = \<lparr>initing = 0, inited = 0, helper_calls = 0, threads = replicate n At_fast_path\<rparr>"

section \<open>The scatter rule in the words of the specification\<close>

text \<open>
  "Copy the body across buffers in order, each receiving \<open>min(remaining, capacity)\<close>":
  the copies this prescribes for a body at \<open>ptr\<close> of which \<open>remaining\<close> bytes are
  left, as \<open>memcpy\<close> events, and the number of bytes an event copies.
\<close>

fun spec_scatter :: "addr \<Rightarrow> size_t \<Rightarrow> nn_iovec list \<Rightarrow> event list" where
  "spec_scatter ptr remaining [] = []"
| "spec_scatter ptr remaining (v # vs) =
     Ev_memcpy (iov_base v) ptr (min remaining (iov_len v)) #
       spec_scatter (ptr + min remaining (iov_len v)) (remaining - min remaining (iov_len v)) vs"

fun copied :: "event \<Rightarrow> nat" where
  "copied (Ev_memcpy dst src n) = unat n"
| "copied ev = 0"

section \<open>A concrete environment and state\<close>

text \<open>An environment in which every native call succeeds, and a state with no live
  message, for evaluating the definitions on concrete inputs.\<close>

definition env0 :: env where
  "env0 = \<lparr>setopt_rv = 0, alloc_rv = 0, alloc_handle = 4096, alloc_body = 8192,
           realloc_rv = 0, realloc_body = 12288, prepend_rv = 0, prepend_body = 16376,
           append_rv = 0, send_rv = 0, recv_rv = 0, recv_handle = 20480,
           recv_msg = \<lparr>body_ptr = 24576, body_len = 10, header = []\<rparr>\<rparr>"

definition world0 :: world where
  "world0 = \<lparr>mem = (\<lambda>a. 0), msgs = Map.empty, errno = 0, calls = []\<rparr>"

text \<open>The state with one envelope: a native message of handle 4096 whose body of 16
  bytes starts at 8200, its handle stored in the eight bytes before the body.\<close>

definition world1 :: world where
  "world1 = world0\<lparr>mem := store_ptr (mem world0) 8192 4096,
                   msgs := [4096 \<mapsto> \<lparr>body_ptr = 8200, body_len = 16, header = []\<rparr>]\<rparr>"

text \<open>The state with a control envelope: a native message of handle 4352 whose body of
  3 bytes starts at 12296, its handle stored in the eight bytes before the body, and the
  address of the body stored at 256, where a descriptor's \<open>msg_control\<close> can point.\<close>

definition world2 :: world where
  "world2 = world0\<lparr>mem := store_ptr (store_ptr (mem world0) 12288 4352) 256 12296,
                   msgs := [4352 \<mapsto> \<lparr>body_ptr = 12296, body_len = 3, header = []\<rparr>]\<rparr>"

text \<open>The state after the gather step of \<open>nn_sendmsg\<close> for a descriptor without buffers,
  started in \<open>world2\<close> with \<open>env0\<close>: an empty message of handle 4096 has been allocated.\<close>

definition world3 :: world where
  "world3 = log (Ev_msg_alloc 0)
     (world2\<lparr>msgs := (msgs world2)(4096 \<mapsto> \<lparr>body_ptr = 8192, body_len = 0, header = []\<rparr>)\<rparr>)"

section \<open>The error table\<close>

lemma seterror_scan_entry:
  "distinct (map fst es) \<Longrightarrow> (n, p) \<in> set es \<Longrightarrow> \<forall>x\<in>set es. fst x \<noteq> 0 \<Longrightarrow>
   seterror_scan (es @ rest) n = Some (n, p)"
proof (induction es)
  case Nil
  then show ?case by simp
next
  case (Cons a es)
  obtain n' p' where a: "a = (n', p')" by (cases a)
  show ?case
  proof (cases "n' = n")
    case True
    with Cons.prems a have "p' = p" by (auto simp: image_iff)
    with True a Cons.prems show ?thesis by simp
  next
    case False
    with Cons.prems a have "(n, p) \<in> set es" by simp
    with Cons.IH Cons.prems a False show ?thesis by simp
  qed
qed

lemma strerror_scan_entry:
  "distinct (map snd es) \<Longrightarrow> (n, p) \<in> set es \<Longrightarrow> \<forall>x\<in>set es. snd x \<noteq> 0 \<Longrightarrow>
   strerror_scan (es @ rest) p = Some (n, p)"
proof (induction es)
  case Nil
  then show ?case by simp
next
  case (Cons a es)
  obtain n' p' where a: "a = (n', p')" by (cases a)
  show ?case
  proof (cases "p' = p")
    case True
    with Cons.prems a have "n' = n" by (auto simp: image_iff)
    with True a Cons.prems show ?thesis by simp
  next
    case False
    with Cons.prems a have "(n, p) \<in> set es" by simp
    with Cons.IH Cons.prems a False show ?thesis by simp
  qed
qed

lemma nn_errnos_split: "butlast nn_errnos @ [(0, 0)] = nn_errnos"
  by (simp add: nn_errnos_def)

lemma nn_errnos_entry:
  "(n, p) \<in> set nn_errnos \<Longrightarrow> n \<noteq> 0 \<Longrightarrow> (n, p) \<in> set (butlast nn_errnos)"
  by (auto simp: nn_errnos_def)

lemma nn_errnos_distinct_fst: "distinct (map fst (butlast nn_errnos))"
  by (simp add: nn_errnos_def nng_errno_defs)

lemma nn_errnos_distinct_snd: "distinct (map snd (butlast nn_errnos))"
  by (simp add: nn_errnos_def posix_errno_defs)

lemma nn_errnos_nonzero: "\<forall>x\<in>set (butlast nn_errnos). fst x \<noteq> 0 \<and> snd x \<noteq> 0"
  by (simp add: nn_errnos_def nng_errno_defs posix_errno_defs)

lemma seterror_scan_table:
  assumes "(n, p) \<in> set nn_errnos" "n \<noteq> 0"
  shows "seterror_scan nn_errnos n = Some (n, p)"
proof -
  from assms have m: "(n, p) \<in> set (butlast nn_errnos)"
    by (rule nn_errnos_entry)
  have "seterror_scan (butlast nn_errnos @ [(0, 0)]) n = Some (n, p)"
    using nn_errnos_distinct_fst m nn_errnos_nonzero by (intro seterror_scan_entry) auto
  then show ?thesis by (simp only: nn_errnos_split)
qed

lemma strerror_scan_table:
  assumes "(n, p) \<in> set nn_errnos" "n \<noteq> 0"
  shows "strerror_scan nn_errnos p = Some (n, p)"
proof -
  from assms have m: "(n, p) \<in> set (butlast nn_errnos)"
    by (rule nn_errnos_entry)
  have "strerror_scan (butlast nn_errnos @ [(0, 0)]) p = Some (n, p)"
    using nn_errnos_distinct_snd m nn_errnos_nonzero by (intro strerror_scan_entry) auto
  then show ?thesis by (simp only: nn_errnos_split)
qed

lemma to_posix_EINVAL: "to_posix NNG_EINVAL = EINVAL"
proof -
  have "(NNG_EINVAL, EINVAL) \<in> set nn_errnos" by (simp add: nn_errnos_def)
  moreover have "NNG_EINVAL \<noteq> 0" by (simp add: NNG_EINVAL_def)
  ultimately have "seterror_scan nn_errnos NNG_EINVAL = Some (NNG_EINVAL, EINVAL)" by (rule seterror_scan_table)
  then show ?thesis by (simp add: to_posix_def)
qed

lemma to_posix_EMSGSIZE: "to_posix NNG_EMSGSIZE = EMSGSIZE"
proof -
  have "(NNG_EMSGSIZE, EMSGSIZE) \<in> set nn_errnos" by (simp add: nn_errnos_def)
  moreover have "NNG_EMSGSIZE \<noteq> 0" by (simp add: NNG_EMSGSIZE_def)
  ultimately have "seterror_scan nn_errnos NNG_EMSGSIZE = Some (NNG_EMSGSIZE, EMSGSIZE)" by (rule seterror_scan_table)
  then show ?thesis by (simp add: to_posix_def)
qed

lemma to_posix_ENOMEM: "to_posix NNG_ENOMEM = ENOMEM"
proof -
  have "(NNG_ENOMEM, ENOMEM) \<in> set nn_errnos" by (simp add: nn_errnos_def)
  moreover have "NNG_ENOMEM \<noteq> 0" by (simp add: NNG_ENOMEM_def)
  ultimately have "seterror_scan nn_errnos NNG_ENOMEM = Some (NNG_ENOMEM, ENOMEM)" by (rule seterror_scan_table)
  then show ?thesis by (simp add: to_posix_def)
qed

lemma seterror_scan_found:
  "seterror_scan es err = Some (n, p) \<Longrightarrow> (n, p) \<in> set es \<and> n = err"
  by (induction es err rule: seterror_scan.induct) (auto split: if_splits)

lemma to_posix_EINVAL_iff: "(to_posix rv = EINVAL) = (rv = NNG_EINVAL)"
proof
  assume a: "to_posix rv = EINVAL"
  show "rv = NNG_EINVAL"
  proof (cases "seterror_scan nn_errnos rv")
    case None
    with a show ?thesis by (simp add: to_posix_def EIO_def EINVAL_def)
  next
    case (Some x)
    obtain n p where x: "x = (n, p)" by (cases x)
    from Some x a have p: "p = EINVAL" by (simp add: to_posix_def)
    from Some x have s: "seterror_scan nn_errnos rv = Some (n, p)" by simp
    from seterror_scan_found [OF s]
    have "(n, p) \<in> set nn_errnos" "n = rv" by blast+
    with p have "(rv, EINVAL) \<in> set nn_errnos" by simp
    then show ?thesis by (simp add: nn_errnos_def posix_errno_defs)
  qed
next
  assume "rv = NNG_EINVAL"
  then show "to_posix rv = EINVAL" by (simp add: to_posix_EINVAL)
qed

text \<open>
  Claim C9. For every entry \<open>(nerr, perr)\<close> of the error table other than the
  terminator, the scan of \<open>nn_seterror\<close> on \<open>nerr\<close> stops at that entry and stores
  \<open>perr\<close>; the scan of \<open>nn_strerror\<close> on that value stops at the same entry, so
  \<open>nn_strerror\<close> returns the native string of the original \<open>nerr\<close>.
\<close>

theorem error_table_roundtrip:
  "\<forall>(nerr, perr) \<in> set nn_errnos. nerr \<noteq> 0 \<longrightarrow>
     seterror_scan nn_errnos nerr = Some (nerr, perr) \<and>
     to_posix nerr = perr \<and>
     strerror_scan nn_errnos (to_posix nerr) = Some (nerr, perr) \<and>
     nn_strerror (to_posix nerr) = Nng_strerror nerr"
proof (clarify, intro conjI)
  fix nerr perr
  assume m: "(nerr, perr) \<in> set nn_errnos" and z: "nerr \<noteq> 0"
  from m z show s: "seterror_scan nn_errnos nerr = Some (nerr, perr)"
    by (rule seterror_scan_table)
  then show p: "to_posix nerr = perr" by (simp add: to_posix_def)
  from m z have "strerror_scan nn_errnos perr = Some (nerr, perr)"
    by (rule strerror_scan_table)
  with p show r: "strerror_scan nn_errnos (to_posix nerr) = Some (nerr, perr)"
    by simp
  show "nn_strerror (to_posix nerr) = Nng_strerror nerr"
    unfolding nn_strerror_def r by (simp only: option.case prod.case)
qed

theorem error_table_roundtrip_witness:
  "(NNG_ECLOSED, EBADF) \<in> set nn_errnos \<and> NNG_ECLOSED \<noteq> 0 \<and>
   seterror_scan nn_errnos NNG_ECLOSED = Some (NNG_ECLOSED, EBADF) \<and>
   to_posix NNG_ECLOSED = EBADF \<and>
   strerror_scan nn_errnos (to_posix NNG_ECLOSED) = Some (NNG_ECLOSED, EBADF) \<and>
   nn_strerror (to_posix NNG_ECLOSED) = Nng_strerror NNG_ECLOSED"
proof -
  have m: "(NNG_ECLOSED, EBADF) \<in> set nn_errnos" by (simp add: nn_errnos_def)
  have z: "NNG_ECLOSED \<noteq> 0" by (simp add: NNG_ECLOSED_def)
  from bspec [OF error_table_roundtrip m]
  have "NNG_ECLOSED \<noteq> 0 \<longrightarrow> seterror_scan nn_errnos NNG_ECLOSED = Some (NNG_ECLOSED, EBADF) \<and>
     to_posix NNG_ECLOSED = EBADF \<and>
     strerror_scan nn_errnos (to_posix NNG_ECLOSED) = Some (NNG_ECLOSED, EBADF) \<and>
     nn_strerror (to_posix NNG_ECLOSED) = Nng_strerror NNG_ECLOSED"
    by (simp only: prod.case)
  with m z show ?thesis by blast
qed

section \<open>Memory and size arithmetic\<close>

lemma no_overflow_iff:
  fixes sz :: size_t
  shows "(sz + sizeof_msg < sz) = (2 ^ 64 \<le> unat sz + 8)"
proof -
  have "(sz \<le> sz + sizeof_msg) = (unat sz + unat sizeof_msg < 2 ^ LENGTH(64))"
    by (rule no_olen_add_nat)
  then show ?thesis by (simp add: sizeof_msg_def not_le [symmetric])
qed

lemma trim_fits:
  fixes sz :: size_t
  assumes "\<not> sz + sizeof_msg < sz"
  shows "\<not> sz + sizeof_msg < sizeof_msg"
proof -
  from assms have "sz \<le> sz + sizeof_msg" by simp
  then have "unat sz + unat sizeof_msg < 2 ^ LENGTH(64)" by (simp only: no_olen_add_nat)
  then have "unat (sz + sizeof_msg) = unat sz + unat sizeof_msg"
    by (simp only: unat_add_lem)
  then have "unat sizeof_msg \<le> unat (sz + sizeof_msg)" by simp
  then show ?thesis by (simp only: word_le_nat_alt [symmetric] not_less)
qed

lemma load_store_bytes:
  assumes "length bs \<le> 2 ^ 64"
  shows "load_bytes (store_bytes m a bs) a (length bs) = bs"
proof (rule nth_equalityI)
  show "length (load_bytes (store_bytes m a bs) a (length bs)) = length bs"
    by (simp add: load_bytes_def)
next
  fix i assume "i < length (load_bytes (store_bytes m a bs) a (length bs))"
  then have i: "i < length bs" by (simp add: load_bytes_def)
  with assms have "i < 2 ^ LENGTH(64)" by simp
  then have "unat (word_of_nat i :: 64 word) = i"
    by (simp only: unat_of_nat mod_less)
  with i show "load_bytes (store_bytes m a bs) a (length bs) ! i = bs ! i"
    by (simp add: load_bytes_def store_bytes_def)
qed

lemma length_ptr_bytes: "length (ptr_bytes v) = 8"
  by (simp add: ptr_bytes_def)

lemma ptr_bytes_rcat: "word_rcat (rev (ptr_bytes v)) = v"
proof (rule bit_word_eqI)
  fix n assume n: "n < LENGTH(64)"
  then have d: "n div 8 < 8" by simp
  have e: "8 * (n div 8) + n mod 8 = n" by simp
  have "bit (horner_sum uint (2 ^ LENGTH(8)) (ptr_bytes v)) n = bit v n"
    unfolding bit_horner_sum_uint_exp_iff length_ptr_bytes
    using d e by (auto simp add: ptr_bytes_def bit_ucast_iff bit_drop_bit_eq simp del: upt_Suc)
  with n show "bit (word_rcat (rev (ptr_bytes v)) :: 64 word) n = bit v n"
    by (simp add: word_rcat_def bit_word_of_int_iff)
qed

lemma load_store_ptr: "load_ptr (store_ptr m a v) a = v"
proof -
  have "length (ptr_bytes v) \<le> 2 ^ 64" by (simp add: length_ptr_bytes)
  from load_store_bytes [OF this, of m a] show ?thesis
  by (simp add: load_ptr_def store_ptr_def length_ptr_bytes ptr_bytes_rcat)
qed

lemma length_int_bytes: "length (int_bytes k) = 4"
  by (simp add: int_bytes_def)

lemma int_bytes_rcat: "word_rcat (rev (int_bytes k)) = (word_of_int k :: 32 word)"
proof (rule bit_word_eqI)
  fix n assume n: "n < LENGTH(32)"
  then have d: "n div 8 < 4" by simp
  have e: "8 * (n div 8) + n mod 8 = n" by simp
  have "bit (horner_sum uint (2 ^ LENGTH(8)) (int_bytes k)) n = bit (word_of_int k :: 32 word) n"
    unfolding bit_horner_sum_uint_exp_iff length_int_bytes
    using d e by (auto simp add: int_bytes_def bit_ucast_iff bit_drop_bit_eq simp del: upt_Suc)
  with n show "bit (word_rcat (rev (int_bytes k)) :: 32 word) n = bit (word_of_int k :: 32 word) n"
    by (simp add: word_rcat_def bit_word_of_int_iff)
qed

lemma load_store_int: "load_int (store_bytes m a (int_bytes k)) a = word_of_int k"
proof -
  have "length (int_bytes k) \<le> 2 ^ 64" by (simp add: length_int_bytes)
  from load_store_bytes [OF this, of m a] show ?thesis
    by (simp add: load_int_def length_int_bytes int_bytes_rcat)
qed

lemma load_bytes_store_bytes_disjoint:
  assumes far: "length bs \<le> unat (b - a)" and fit: "unat (b - a) + n \<le> 2 ^ 64"
  shows "load_bytes (store_bytes m a bs) b n = load_bytes m b n"
proof -
  have "\<And>i. i < n \<Longrightarrow> store_bytes m a bs (b + of_nat i) = m (b + of_nat i)"
  proof -
    fix i assume i: "i < n"
    with fit have "i < 2 ^ LENGTH(64)" by simp
    then have ui: "unat (word_of_nat i :: 64 word) = i" by (simp only: unat_of_nat mod_less)
    from i fit have "unat (b - a) + unat (word_of_nat i :: 64 word) < 2 ^ LENGTH(64)"
      by (simp add: ui)
    then have "unat ((b - a) + word_of_nat i) = unat (b - a) + i"
      by (simp only: unat_add_lem [THEN iffD1] ui)
    moreover have e: "b + word_of_nat i - a = (b - a) + word_of_nat i" by simp
    ultimately have "length bs \<le> unat (b + word_of_nat i - a)"
      unfolding e using far by linarith
    then show "store_bytes m a bs (b + of_nat i) = m (b + of_nat i)"
      by (simp add: store_bytes_def)
  qed
  then show ?thesis by (simp add: load_bytes_def)
qed

lemma load_ptr_store_ptr_disjoint:
  assumes "8 \<le> unat (b - a)" and "unat (b - a) + 8 \<le> 2 ^ 64"
  shows "load_ptr (store_ptr m a v) b = load_ptr m b"
  using load_bytes_store_bytes_disjoint [of "ptr_bytes v" b a 8 m] assms
  by (simp add: load_ptr_def store_ptr_def length_ptr_bytes)

lemma int_of_size_small:
  assumes "unat n < 2147483648"
  shows "int_of_size n = int (unat n)"
proof -
  have u: "uint n = int (unat n)" by (rule uint_nat)
  with assms have lt: "uint n < 2147483648" by linarith
  have ge: "0 \<le> uint n" by simp
  from lt ge have b: "take_bit 32 (uint n) = uint n"
    by (intro take_bit_int_eq_self) simp_all
  have "sint (ucast n :: 32 word) = signed_take_bit (LENGTH(32) - Suc 0) (uint (ucast n :: 32 word))"
    by (rule sint_uint)
  also have "uint (ucast n :: 32 word) = take_bit LENGTH(32) (uint n)"
    by (rule unsigned_ucast_eq)
  also have "signed_take_bit (LENGTH(32) - Suc 0) (take_bit LENGTH(32) (uint n)) = uint n"
  proof -
    have "- (2 ^ 31) \<le> uint n"
      by (rule order_trans [of _ 0]) simp_all
    moreover from lt have "uint n < 2 ^ 31" by simp
    ultimately have "signed_take_bit 31 (uint n) = uint n"
      by (rule signed_take_bit_int_eq_self)
    with b show ?thesis by simp
  qed
  finally show ?thesis by (simp only: int_of_size_def u)
qed

lemma sint_usec: "sint (scast (v :: 32 word) * 1000 :: 64 word) = sint v * 1000"
proof -
  have "- 2147483648 \<le> sint v" "sint v < 2147483648"
    using sint_ge [of v] sint_lt [of v] by simp_all
  then have "- 9223372036854775808 \<le> sint v * 1000" "sint v * 1000 < 9223372036854775808"
    by linarith+
  then have b: "- (2 ^ (LENGTH(64) - 1)) \<le> sint v * 1000" "sint v * 1000 < 2 ^ (LENGTH(64) - 1)"
    by simp_all
  have "(scast v * 1000 :: 64 word) = word_of_int (sint v * 1000)"
    by (simp only: scast_eq of_int_mult of_int_numeral)
  moreover have "sint (word_of_int (sint v * 1000) :: 64 word) = sint v * 1000"
    unfolding sint_sbintrunc' by (rule signed_take_bit_int_eq_self [OF b])
  ultimately show ?thesis by simp
qed

section \<open>Allocating and resizing envelopes\<close>

text \<open>The last three statements of \<open>nn_allocmsg\<close> and of \<open>nn_reallocmsg\<close>: the handle is
  stored at the start of the body, and the body is trimmed by the width of the handle.\<close>

lemma stamp_trim:
  assumes "msgs w1 h = Some m" and "\<not> body_len m < sizeof_msg"
  shows "do {
           p \<leftarrow> nng_msg_body w1 h;
           let w2 = w1\<lparr>mem := store_ptr (mem w1) p h\<rparr>;
           (rv, w3) \<leftarrow> nng_msg_trim w2 h sizeof_msg;
           q \<leftarrow> nng_msg_body w3 h;
           Some (q, w3)
         } =
         Some (body_ptr m + sizeof_msg,
               log (Ev_msg_trim h sizeof_msg)
                 (w1\<lparr>mem := store_ptr (mem w1) (body_ptr m) h,
                     msgs := (msgs w1)(h \<mapsto> m\<lparr>body_ptr := body_ptr m + sizeof_msg,
                                                body_len := body_len m - sizeof_msg\<rparr>)\<rparr>))"
  using assms by (simp add: nng_msg_body_def nng_msg_trim_def log_def)

text \<open>
  Claim C10. For every size and every type other than 0, \<open>nn_allocmsg\<close> returns
  \<open>NULL\<close> with \<open>errno = EINVAL\<close> and calls nothing of the native layer: memory, the
  live messages and the list of calls are as before.
\<close>

theorem nn_allocmsg_type_nonzero:
  "type \<noteq> 0 \<Longrightarrow> nn_allocmsg e w sz type = Some (NULL, w\<lparr>errno := EINVAL\<rparr>)"
  by (simp add: nn_allocmsg_def nn_seterror_def to_posix_EINVAL)

theorem nn_allocmsg_type_nonzero_witness:
  "(1 :: int) \<noteq> 0 \<and> nn_allocmsg env0 world0 16 1 = Some (NULL, world0\<lparr>errno := EINVAL\<rparr>)"
  using nn_allocmsg_type_nonzero [of 1 env0 world0 16] by simp

lemma nn_allocmsg_invalid:
  "sz = 0 \<or> 2 ^ 64 \<le> unat sz + 8 \<Longrightarrow>
   nn_allocmsg e w sz 0 = Some (NULL, w\<lparr>errno := EINVAL\<rparr>)"
  by (auto simp: nn_allocmsg_def nn_seterror_def to_posix_EINVAL no_overflow_iff)

lemma nn_allocmsg_valid:
  assumes "\<not> (sz = 0 \<or> 2 ^ 64 \<le> unat sz + 8)"
  shows "nn_allocmsg e w sz 0 =
     (if alloc_rv e \<noteq> 0
      then Some (NULL, (log (Ev_msg_alloc (sz + sizeof_msg)) w)\<lparr>errno := to_posix (alloc_rv e)\<rparr>)
      else Some (alloc_body e + sizeof_msg,
             log (Ev_msg_trim (alloc_handle e) sizeof_msg)
               (log (Ev_msg_alloc (sz + sizeof_msg))
                  (w\<lparr>mem := store_ptr (mem w) (alloc_body e) (alloc_handle e),
                     msgs := (msgs w)(alloc_handle e \<mapsto>
                       \<lparr>body_ptr = alloc_body e + sizeof_msg, body_len = sz, header = []\<rparr>)\<rparr>))))"
proof (cases "alloc_rv e \<noteq> 0")
  case True
  with assms show ?thesis
    by (simp add: nn_allocmsg_def nng_msg_alloc_def nn_seterror_def no_overflow_iff
        word_less_1)
next
  case False
  let ?h = "alloc_handle e"
  let ?m = "\<lparr>body_ptr = alloc_body e, body_len = sz + sizeof_msg, header = []\<rparr>"
  let ?w1 = "log (Ev_msg_alloc (sz + sizeof_msg)) (w\<lparr>msgs := (msgs w)(?h \<mapsto> ?m)\<rparr>)"
  from assms have no: "\<not> sz + sizeof_msg < sz" by (simp add: no_overflow_iff)
  have live: "msgs ?w1 ?h = Some ?m" by (simp add: log_def)
  from no have fits: "\<not> body_len ?m < sizeof_msg" using trim_fits [of sz] by simp
  from assms no False have
    "nn_allocmsg e w sz 0 = do {
           p \<leftarrow> nng_msg_body ?w1 ?h;
           let w2 = ?w1\<lparr>mem := store_ptr (mem ?w1) p ?h\<rparr>;
           (rv, w3) \<leftarrow> nng_msg_trim w2 ?h sizeof_msg;
           q \<leftarrow> nng_msg_body w3 ?h;
           Some (q, w3)
         }"
    by (simp add: nn_allocmsg_def nng_msg_alloc_def word_less_1)
  also note stamp_trim [OF live fits]
  finally show ?thesis using False by (simp add: log_def)
qed

text \<open>
  Claim C5, as amended. With type 0, \<open>nn_allocmsg\<close> returns \<open>NULL\<close> with
  \<open>errno = EINVAL\<close>, having called nothing, when the size is zero or the size plus the
  width of the hidden handle (8) does not fit \<open>size_t\<close>. For any other size it calls
  \<open>nng_msg_alloc\<close> for \<open>size + 8\<close> bytes. When that fails, the result is \<open>NULL\<close>
  with the translation of the native error, which is \<open>EINVAL\<close> exactly for
  \<open>NNG_EINVAL\<close>. When it succeeds, the result is the body pointer after the trim, the
  message's length is exactly \<open>size\<close>, the eight bytes in front of the returned pointer
  hold the native handle, and \<open>errno\<close> is as before. So, when the pointer of a success
  is not \<open>NULL\<close>, the call returns \<open>NULL\<close> with \<open>errno = EINVAL\<close> exactly when the
  size is zero, the size plus 8 overflows, or the native allocation fails with
  \<open>NNG_EINVAL\<close>.
\<close>

theorem nn_allocmsg_type_zero:
  "(sz = 0 \<or> 2 ^ 64 \<le> unat sz + 8 \<longrightarrow>
      nn_allocmsg e w sz 0 = Some (NULL, w\<lparr>errno := EINVAL\<rparr>)) \<and>
   (\<not> (sz = 0 \<or> 2 ^ 64 \<le> unat sz + 8) \<longrightarrow> alloc_rv e \<noteq> 0 \<longrightarrow>
      nn_allocmsg e w sz 0 =
        Some (NULL, (log (Ev_msg_alloc (sz + sizeof_msg)) w)\<lparr>errno := to_posix (alloc_rv e)\<rparr>) \<and>
      (to_posix (alloc_rv e) = EINVAL) = (alloc_rv e = NNG_EINVAL)) \<and>
   (\<not> (sz = 0 \<or> 2 ^ 64 \<le> unat sz + 8) \<longrightarrow> alloc_rv e = 0 \<longrightarrow>
      (\<exists>w'. nn_allocmsg e w sz 0 = Some (alloc_body e + sizeof_msg, w') \<and>
            nng_msg_body w' (alloc_handle e) = Some (alloc_body e + sizeof_msg) \<and>
            nng_msg_len w' (alloc_handle e) = Some sz \<and>
            load_ptr (mem w') (alloc_body e + sizeof_msg - sizeof_msg) = alloc_handle e \<and>
            errno w' = errno w \<and>
            calls w' = calls w @ [Ev_msg_alloc (sz + sizeof_msg),
                                  Ev_msg_trim (alloc_handle e) sizeof_msg])) \<and>
   (alloc_body e + sizeof_msg \<noteq> NULL \<longrightarrow>
      (\<exists>w'. nn_allocmsg e w sz 0 = Some (NULL, w') \<and> errno w' = EINVAL) =
      (sz = 0 \<or> 2 ^ 64 \<le> unat sz + 8 \<or> alloc_rv e = NNG_EINVAL))"
proof (intro conjI impI)
  assume "sz = 0 \<or> 2 ^ 64 \<le> unat sz + 8"
  then show "nn_allocmsg e w sz 0 = Some (NULL, w\<lparr>errno := EINVAL\<rparr>)"
    by (rule nn_allocmsg_invalid)
next
  assume n: "\<not> (sz = 0 \<or> 2 ^ 64 \<le> unat sz + 8)" and bad: "alloc_rv e \<noteq> 0"
  show "nn_allocmsg e w sz 0 =
      Some (NULL, (log (Ev_msg_alloc (sz + sizeof_msg)) w)\<lparr>errno := to_posix (alloc_rv e)\<rparr>)"
    unfolding nn_allocmsg_valid [OF n] using bad by simp
next
  show "(to_posix (alloc_rv e) = EINVAL) = (alloc_rv e = NNG_EINVAL)"
    by (rule to_posix_EINVAL_iff)
next
  assume n: "\<not> (sz = 0 \<or> 2 ^ 64 \<le> unat sz + 8)" and ok: "alloc_rv e = 0"
  show "\<exists>w'. nn_allocmsg e w sz 0 = Some (alloc_body e + sizeof_msg, w') \<and>
            nng_msg_body w' (alloc_handle e) = Some (alloc_body e + sizeof_msg) \<and>
            nng_msg_len w' (alloc_handle e) = Some sz \<and>
            load_ptr (mem w') (alloc_body e + sizeof_msg - sizeof_msg) = alloc_handle e \<and>
            errno w' = errno w \<and>
            calls w' = calls w @ [Ev_msg_alloc (sz + sizeof_msg),
                                  Ev_msg_trim (alloc_handle e) sizeof_msg]"
    unfolding nn_allocmsg_valid [OF n] using ok
    by (simp add: log_def nng_msg_body_def nng_msg_len_def load_store_ptr)
next
  assume nn: "alloc_body e + sizeof_msg \<noteq> NULL"
  show "(\<exists>w'. nn_allocmsg e w sz 0 = Some (NULL, w') \<and> errno w' = EINVAL) =
      (sz = 0 \<or> 2 ^ 64 \<le> unat sz + 8 \<or> alloc_rv e = NNG_EINVAL)"
  proof (cases "sz = 0 \<or> 2 ^ 64 \<le> unat sz + 8")
    case True
    from nn_allocmsg_invalid [OF True, of e w]
    have "\<exists>w'. nn_allocmsg e w sz 0 = Some (NULL, w') \<and> errno w' = EINVAL" by simp
    with True show ?thesis by blast
  next
    case False
    have z: "NNG_EINVAL \<noteq> 0" by (simp add: NNG_EINVAL_def)
    show ?thesis
    proof (cases "alloc_rv e = 0")
      case True
      with nn False z show ?thesis
        unfolding nn_allocmsg_valid [OF False] by (simp add: NULL_def)
    next
      case bad: False
      with False show ?thesis
        unfolding nn_allocmsg_valid [OF False] by (simp add: log_def to_posix_EINVAL_iff)
    qed
  qed
qed

theorem nn_allocmsg_type_zero_witness:
  "nn_allocmsg env0 world0 0 0 = Some (NULL, world0\<lparr>errno := EINVAL\<rparr>) \<and>
   nn_allocmsg (env0\<lparr>alloc_rv := NNG_ENOMEM\<rparr>) world0 16 0 =
     Some (NULL, (log (Ev_msg_alloc 24) world0)\<lparr>errno := ENOMEM\<rparr>) \<and>
   (\<exists>w'. nn_allocmsg env0 world0 16 0 = Some (8200, w') \<and>
         nng_msg_body w' 4096 = Some 8200 \<and>
         nng_msg_len w' 4096 = Some 16 \<and>
         load_ptr (mem w') (8200 - 8) = 4096 \<and>
         errno w' = 0 \<and>
         calls w' = [Ev_msg_alloc 24, Ev_msg_trim 4096 8]) \<and>
   (\<exists>w'. nn_allocmsg (env0\<lparr>alloc_rv := NNG_EINVAL\<rparr>) world0 16 0 = Some (NULL, w') \<and>
         errno w' = EINVAL)"
proof -
  have n: "\<not> ((16 :: size_t) = 0 \<or> 2 ^ 64 \<le> unat (16 :: size_t) + 8)" by simp
  have z: "(0 :: size_t) = 0 \<or> 2 ^ 64 \<le> unat (0 :: size_t) + 8" by simp
  have ok: "alloc_rv env0 = 0" by (simp add: env0_def)
  have bad: "alloc_rv (env0\<lparr>alloc_rv := NNG_ENOMEM\<rparr>) \<noteq> 0" by (simp add: NNG_ENOMEM_def)
  have inv: "alloc_rv (env0\<lparr>alloc_rv := NNG_EINVAL\<rparr>) = NNG_EINVAL" by simp
  have nn: "alloc_body (env0\<lparr>alloc_rv := NNG_EINVAL\<rparr>) + sizeof_msg \<noteq> NULL"
    by (simp add: env0_def sizeof_msg_def NULL_def)
  from nn_allocmsg_type_zero [where sz = 0 and e = env0 and w = world0] z
  have a: "nn_allocmsg env0 world0 0 0 = Some (NULL, world0\<lparr>errno := EINVAL\<rparr>)" by blast
  from nn_allocmsg_type_zero [where sz = 16 and e = "env0\<lparr>alloc_rv := NNG_ENOMEM\<rparr>"
      and w = world0] n bad
  have "nn_allocmsg (env0\<lparr>alloc_rv := NNG_ENOMEM\<rparr>) world0 16 0 =
      Some (NULL, (log (Ev_msg_alloc (16 + sizeof_msg)) world0)
        \<lparr>errno := to_posix (alloc_rv (env0\<lparr>alloc_rv := NNG_ENOMEM\<rparr>))\<rparr>)"
    by blast
  then have b: "nn_allocmsg (env0\<lparr>alloc_rv := NNG_ENOMEM\<rparr>) world0 16 0 =
      Some (NULL, (log (Ev_msg_alloc 24) world0)\<lparr>errno := ENOMEM\<rparr>)"
    by (simp add: sizeof_msg_def to_posix_ENOMEM)
  from nn_allocmsg_type_zero [where sz = 16 and e = env0 and w = world0] n ok
  have "\<exists>w'. nn_allocmsg env0 world0 16 0 = Some (alloc_body env0 + sizeof_msg, w') \<and>
            nng_msg_body w' (alloc_handle env0) = Some (alloc_body env0 + sizeof_msg) \<and>
            nng_msg_len w' (alloc_handle env0) = Some 16 \<and>
            load_ptr (mem w') (alloc_body env0 + sizeof_msg - sizeof_msg) = alloc_handle env0 \<and>
            errno w' = errno world0 \<and>
            calls w' = calls world0 @ [Ev_msg_alloc (16 + sizeof_msg),
                                  Ev_msg_trim (alloc_handle env0) sizeof_msg]"
    by blast
  then have c: "\<exists>w'. nn_allocmsg env0 world0 16 0 = Some (8200, w') \<and>
         nng_msg_body w' 4096 = Some 8200 \<and>
         nng_msg_len w' 4096 = Some 16 \<and>
         load_ptr (mem w') (8200 - 8) = 4096 \<and>
         errno w' = 0 \<and>
         calls w' = [Ev_msg_alloc 24, Ev_msg_trim 4096 8]"
    by (simp add: env0_def world0_def sizeof_msg_def)
  from nn_allocmsg_type_zero [where sz = 16 and e = "env0\<lparr>alloc_rv := NNG_EINVAL\<rparr>"
      and w = world0] nn inv
  have d: "\<exists>w'. nn_allocmsg (env0\<lparr>alloc_rv := NNG_EINVAL\<rparr>) world0 16 0 = Some (NULL, w') \<and>
         errno w' = EINVAL"
    by blast
  from a b c d show ?thesis by simp
qed

text \<open>
  The claim as stated says that the call fails with \<open>EINVAL\<close> only for a size of zero
  or a size whose sum with the handle width overflows. For size 16 and a native
  allocation that fails with \<open>NNG_EINVAL\<close>, the result is \<open>NULL\<close> with
  \<open>errno = EINVAL\<close> as well.
\<close>

theorem nn_allocmsg_einval_counterexample:
  "(16 :: size_t) \<noteq> 0 \<and> unat (16 :: size_t) + 8 < 2 ^ 64 \<and>
   nn_allocmsg (env0\<lparr>alloc_rv := NNG_EINVAL\<rparr>) world0 16 0 =
     Some (NULL, (log (Ev_msg_alloc 24) world0)\<lparr>errno := EINVAL\<rparr>)"
proof -
  have n: "\<not> ((16 :: size_t) = 0 \<or> 2 ^ 64 \<le> unat (16 :: size_t) + 8)" by simp
  have z: "NNG_EINVAL \<noteq> 0" by (simp add: NNG_EINVAL_def)
  from nn_allocmsg_valid [OF n, of "env0\<lparr>alloc_rv := NNG_EINVAL\<rparr>" world0] z
  have "nn_allocmsg (env0\<lparr>alloc_rv := NNG_EINVAL\<rparr>) world0 16 0 =
     Some (NULL, (log (Ev_msg_alloc 24) world0)\<lparr>errno := EINVAL\<rparr>)"
    by (simp add: to_posix_EINVAL sizeof_msg_def)
  then show ?thesis by simp
qed

lemma nn_reallocmsg_valid:
  assumes no: "\<not> 2 ^ 64 \<le> unat len + 8"
    and live: "msgs w (load_ptr (mem w) (ptr - sizeof_msg)) = Some m"
  shows "nn_reallocmsg e w ptr len =
     (let msg = load_ptr (mem w) (ptr - sizeof_msg) in
      if realloc_rv e \<noteq> 0
      then Some (NULL, (log (Ev_msg_realloc msg (len + sizeof_msg)) w)\<lparr>errno := to_posix (realloc_rv e)\<rparr>)
      else Some (realloc_body e + sizeof_msg,
             log (Ev_msg_trim msg sizeof_msg)
               (log (Ev_msg_realloc msg (len + sizeof_msg))
                  (w\<lparr>mem := store_ptr
                             (store_bytes (mem w) (realloc_body e)
                                (load_bytes (mem w) (body_ptr m)
                                   (unat (min (body_len m) (len + sizeof_msg)))))
                             (realloc_body e) msg,
                     msgs := (msgs w)(msg \<mapsto>
                       m\<lparr>body_ptr := realloc_body e + sizeof_msg, body_len := len\<rparr>)\<rparr>))))"
proof (cases "realloc_rv e \<noteq> 0")
  case True
  with no live show ?thesis
    by (simp add: nn_reallocmsg_def nng_msg_realloc_def nn_seterror_def no_overflow_iff Let_def)
next
  case False
  let ?h = "load_ptr (mem w) (ptr - sizeof_msg)"
  let ?m = "m\<lparr>body_ptr := realloc_body e, body_len := len + sizeof_msg\<rparr>"
  let ?w1 = "log (Ev_msg_realloc ?h (len + sizeof_msg))
               (w\<lparr>mem := store_bytes (mem w) (realloc_body e)
                              (load_bytes (mem w) (body_ptr m)
                                 (unat (min (body_len m) (len + sizeof_msg)))),
                   msgs := (msgs w)(?h \<mapsto> ?m)\<rparr>)"
  from no have nov: "\<not> len + sizeof_msg < len" by (simp add: no_overflow_iff)
  have l1: "msgs ?w1 ?h = Some ?m" by (simp add: log_def)
  from nov have fits: "\<not> body_len ?m < sizeof_msg" using trim_fits [of len] by simp
  from nov live False have
    "nn_reallocmsg e w ptr len = do {
           p \<leftarrow> nng_msg_body ?w1 ?h;
           let w2 = ?w1\<lparr>mem := store_ptr (mem ?w1) p ?h\<rparr>;
           (rv, w3) \<leftarrow> nng_msg_trim w2 ?h sizeof_msg;
           q \<leftarrow> nng_msg_body w3 ?h;
           Some (q, w3)
         }"
    by (simp add: nn_reallocmsg_def nng_msg_realloc_def Let_def)
  also note stamp_trim [OF l1 fits]
  finally show ?thesis using False by (simp add: log_def Let_def)
qed

text \<open>
  Claim C6. \<open>nn_reallocmsg\<close> returns \<open>NULL\<close> with \<open>errno = EINVAL\<close> when the new size
  plus the width of the hidden handle does not fit \<open>size_t\<close>. For a pointer whose hidden
  handle is a live message: when \<open>nng_msg_realloc\<close> fails, the result is \<open>NULL\<close> and
  memory and the live messages are as before (only \<open>errno\<close> and the list of calls
  change); when it succeeds, the handle is stored at the body's new start, the returned
  pointer is the body pointer after the trim, and the message's length is exactly the
  new size.
\<close>

theorem nn_reallocmsg_outcomes:
  "(2 ^ 64 \<le> unat len + 8 \<longrightarrow> nn_reallocmsg e w ptr len = Some (NULL, w\<lparr>errno := EINVAL\<rparr>)) \<and>
   (\<not> 2 ^ 64 \<le> unat len + 8 \<longrightarrow> msgs w (load_ptr (mem w) (ptr - sizeof_msg)) = Some m \<longrightarrow>
    realloc_rv e \<noteq> 0 \<longrightarrow>
      (\<exists>w'. nn_reallocmsg e w ptr len = Some (NULL, w') \<and>
            mem w' = mem w \<and> msgs w' = msgs w \<and> errno w' = to_posix (realloc_rv e) \<and>
            calls w' = calls w @ [Ev_msg_realloc (load_ptr (mem w) (ptr - sizeof_msg))
                                    (len + sizeof_msg)])) \<and>
   (\<not> 2 ^ 64 \<le> unat len + 8 \<longrightarrow> msgs w (load_ptr (mem w) (ptr - sizeof_msg)) = Some m \<longrightarrow>
    realloc_rv e = 0 \<longrightarrow>
      (\<exists>w'. nn_reallocmsg e w ptr len = Some (realloc_body e + sizeof_msg, w') \<and>
            nng_msg_body w' (load_ptr (mem w) (ptr - sizeof_msg)) = Some (realloc_body e + sizeof_msg) \<and>
            nng_msg_len w' (load_ptr (mem w) (ptr - sizeof_msg)) = Some len \<and>
            load_ptr (mem w') (realloc_body e + sizeof_msg - sizeof_msg) =
              load_ptr (mem w) (ptr - sizeof_msg)))"
proof (intro conjI impI)
  assume "2 ^ 64 \<le> unat len + 8"
  then show "nn_reallocmsg e w ptr len = Some (NULL, w\<lparr>errno := EINVAL\<rparr>)"
    by (simp add: nn_reallocmsg_def nn_seterror_def to_posix_EINVAL no_overflow_iff)
next
  assume no: "\<not> 2 ^ 64 \<le> unat len + 8"
    and live: "msgs w (load_ptr (mem w) (ptr - sizeof_msg)) = Some m"
    and bad: "realloc_rv e \<noteq> 0"
  show "\<exists>w'. nn_reallocmsg e w ptr len = Some (NULL, w') \<and>
            mem w' = mem w \<and> msgs w' = msgs w \<and> errno w' = to_posix (realloc_rv e) \<and>
            calls w' = calls w @ [Ev_msg_realloc (load_ptr (mem w) (ptr - sizeof_msg))
                                    (len + sizeof_msg)]"
    unfolding nn_reallocmsg_valid [OF no live] using bad by (simp add: log_def Let_def)
next
  assume no: "\<not> 2 ^ 64 \<le> unat len + 8"
    and live: "msgs w (load_ptr (mem w) (ptr - sizeof_msg)) = Some m"
    and ok: "realloc_rv e = 0"
  show "\<exists>w'. nn_reallocmsg e w ptr len = Some (realloc_body e + sizeof_msg, w') \<and>
            nng_msg_body w' (load_ptr (mem w) (ptr - sizeof_msg)) = Some (realloc_body e + sizeof_msg) \<and>
            nng_msg_len w' (load_ptr (mem w) (ptr - sizeof_msg)) = Some len \<and>
            load_ptr (mem w') (realloc_body e + sizeof_msg - sizeof_msg) =
              load_ptr (mem w) (ptr - sizeof_msg)"
    unfolding nn_reallocmsg_valid [OF no live] using ok
    by (simp add: log_def Let_def nng_msg_body_def nng_msg_len_def load_store_ptr)
qed

lemma world1_hidden: "load_ptr (mem world1) (8200 - sizeof_msg) = 4096"
  by (simp add: world1_def sizeof_msg_def load_store_ptr)

theorem nn_reallocmsg_outcomes_witness:
  "2 ^ 64 \<le> unat (18446744073709551615 :: size_t) + 8 \<and>
   nn_reallocmsg env0 world1 8200 18446744073709551615 = Some (NULL, world1\<lparr>errno := EINVAL\<rparr>) \<and>
   \<not> 2 ^ 64 \<le> unat (32 :: size_t) + 8 \<and>
   msgs world1 (load_ptr (mem world1) (8200 - sizeof_msg)) =
     Some \<lparr>body_ptr = 8200, body_len = 16, header = []\<rparr> \<and>
   (\<exists>w'. nn_reallocmsg (env0\<lparr>realloc_rv := NNG_ENOMEM\<rparr>) world1 8200 32 = Some (NULL, w') \<and>
         mem w' = mem world1 \<and> msgs w' = msgs world1 \<and> errno w' = ENOMEM) \<and>
   (\<exists>w'. nn_reallocmsg env0 world1 8200 32 = Some (12296, w') \<and>
         nng_msg_body w' 4096 = Some 12296 \<and>
         nng_msg_len w' 4096 = Some 32 \<and>
         load_ptr (mem w') (12296 - 8) = 4096)"
proof -
  let ?m = "\<lparr>body_ptr = 8200, body_len = 16, header = []\<rparr>"
  have ov: "2 ^ 64 \<le> unat (18446744073709551615 :: size_t) + 8" by simp
  have no: "\<not> 2 ^ 64 \<le> unat (32 :: size_t) + 8" by simp
  have live: "msgs world1 (load_ptr (mem world1) (8200 - sizeof_msg)) = Some ?m"
    by (simp add: world1_hidden) (simp add: world1_def)
  have bad: "realloc_rv (env0\<lparr>realloc_rv := NNG_ENOMEM\<rparr>) \<noteq> 0" by (simp add: NNG_ENOMEM_def)
  have ok: "realloc_rv env0 = 0" by (simp add: env0_def)
  from nn_reallocmsg_outcomes [of 18446744073709551615 env0 world1 8200] ov
  have a: "nn_reallocmsg env0 world1 8200 18446744073709551615 = Some (NULL, world1\<lparr>errno := EINVAL\<rparr>)"
    by blast
  from nn_reallocmsg_outcomes [of 32 "env0\<lparr>realloc_rv := NNG_ENOMEM\<rparr>" world1 8200 ?m] no live bad
  have "\<exists>w'. nn_reallocmsg (env0\<lparr>realloc_rv := NNG_ENOMEM\<rparr>) world1 8200 32 = Some (NULL, w') \<and>
         mem w' = mem world1 \<and> msgs w' = msgs world1 \<and>
         errno w' = to_posix (realloc_rv (env0\<lparr>realloc_rv := NNG_ENOMEM\<rparr>))"
    by blast
  then have b: "\<exists>w'. nn_reallocmsg (env0\<lparr>realloc_rv := NNG_ENOMEM\<rparr>) world1 8200 32 = Some (NULL, w') \<and>
         mem w' = mem world1 \<and> msgs w' = msgs world1 \<and> errno w' = ENOMEM"
    by (simp add: to_posix_ENOMEM)
  from nn_reallocmsg_outcomes [of 32 env0 world1 8200 ?m] no live ok
  have "\<exists>w'. nn_reallocmsg env0 world1 8200 32 = Some (realloc_body env0 + sizeof_msg, w') \<and>
            nng_msg_body w' (load_ptr (mem world1) (8200 - sizeof_msg)) =
              Some (realloc_body env0 + sizeof_msg) \<and>
            nng_msg_len w' (load_ptr (mem world1) (8200 - sizeof_msg)) = Some 32 \<and>
            load_ptr (mem w') (realloc_body env0 + sizeof_msg - sizeof_msg) =
              load_ptr (mem world1) (8200 - sizeof_msg)"
    by blast
  then have c: "\<exists>w'. nn_reallocmsg env0 world1 8200 32 = Some (12296, w') \<and>
         nng_msg_body w' 4096 = Some 12296 \<and>
         nng_msg_len w' 4096 = Some 32 \<and>
         load_ptr (mem w') (12296 - 8) = 4096"
    unfolding world1_hidden by (simp add: env0_def sizeof_msg_def)
  from ov a no live b c show ?thesis by blast
qed

section \<open>Setting socket options\<close>

text \<open>
  Claim C1 says that \<open>nn_setsockopt\<close> with level \<open>NN_SURVEYOR\<close> and option
  \<open>NN_SURVEY_DEADLINE\<close> does not fail as unsupported. In the code the body of
  \<open>case NN_SURVEYOR\<close> has no \<open>break\<close> after its inner \<open>switch\<close>, so control
  falls into \<open>default\<close>: for every socket, value and size the call returns \<open>-1\<close> with
  \<open>errno = ENOPROTOOPT\<close> and \<open>nng_setopt\<close> is not called.
\<close>

theorem nn_setsockopt_survey_deadline_unsupported:
  "nn_setsockopt e w s NN_SURVEYOR NN_SURVEY_DEADLINE valp sz = (- 1, w\<lparr>errno := ENOPROTOOPT\<rparr>)"
  by (simp add: nn_setsockopt_def translate_def nn_level_defs case_SURVEYOR_def case_default_def)

lemma translate_mscvt_options:
  "(\<exists>st. translate nnlevel nnopt = Brk st \<and> mscvt st \<noteq> 0) =
   ((nnlevel = NN_SOL_SOCKET \<and>
       nnopt \<in> {NN_RECONNECT_IVL, NN_RECONNECT_IVL_MAX, NN_RCVTIMEO, NN_SNDTIMEO}) \<or>
    (nnlevel = NN_REQ \<and> nnopt = NN_REQ_RESEND_IVL))"
  by (auto simp: translate_def case_SOL_SOCKET_def case_REQ_def case_SUB_def case_SURVEYOR_def
      case_default_def nn_level_defs nn_option_defs)

text \<open>
  For every level and option for which the \<open>switch\<close> of \<open>nn_setsockopt\<close> ends with
  \<open>mscvt\<close> set (\<open>translate_mscvt_options\<close> lists them), the code after the \<open>switch\<close>
  converts milliseconds to microseconds: when the size is not \<open>sizeof (int)\<close> the call returns
  \<open>-1\<close> with \<open>errno = EINVAL\<close> and nothing else changes, so nothing is forwarded; when
  the size is \<open>sizeof (int)\<close> and the \<open>int\<close> at \<open>valp\<close> is \<open>v\<close>, the one call of
  \<open>nng_setopt\<close> gets the address of a 64-bit value of size 8 that, read as a signed
  number, is exactly \<open>v * 1000\<close>.
\<close>

lemma nn_setsockopt_ms_conversion:
  assumes "translate nnlevel nnopt = Brk st" and "mscvt st \<noteq> 0"
  shows "(sz \<noteq> sizeof_int \<longrightarrow>
            nn_setsockopt e w s nnlevel nnopt valp sz = (- 1, w\<lparr>errno := EINVAL\<rparr>)) \<and>
         (sz = sizeof_int \<longrightarrow>
            (\<exists>usec. nn_setsockopt e w s nnlevel nnopt valp sz =
                      setopt_call e w s (opt st) (Local_usec usec) 8 \<and>
                    calls (snd (nn_setsockopt e w s nnlevel nnopt valp sz)) =
                      calls w @ [Ev_setopt s (opt st) (Local_usec usec) 8] \<and>
                    sint usec = sint (load_int (mem w) valp) * 1000))"
proof (intro conjI impI)
  assume "sz \<noteq> sizeof_int"
  with assms show "nn_setsockopt e w s nnlevel nnopt valp sz = (- 1, w\<lparr>errno := EINVAL\<rparr>)"
    by (simp add: nn_setsockopt_def setopt_tail_def)
next
  assume sz: "sz = sizeof_int"
  let ?usec = "scast (load_int (mem w) valp) * 1000 :: 64 word"
  from assms sz have r: "nn_setsockopt e w s nnlevel nnopt valp sz =
      setopt_call e w s (opt st) (Local_usec ?usec) 8"
    by (simp add: nn_setsockopt_def setopt_tail_def Let_def sizeof_usec_def)
  moreover have "calls (snd (setopt_call e w s (opt st) (Local_usec ?usec) 8)) =
      calls w @ [Ev_setopt s (opt st) (Local_usec ?usec) 8]"
    by (simp add: setopt_call_def nng_setopt_def log_def nn_seterror_def)
  moreover note sint_usec [of "load_int (mem w) valp"]
  ultimately show "\<exists>usec. nn_setsockopt e w s nnlevel nnopt valp sz =
                      setopt_call e w s (opt st) (Local_usec usec) 8 \<and>
                    calls (snd (nn_setsockopt e w s nnlevel nnopt valp sz)) =
                      calls w @ [Ev_setopt s (opt st) (Local_usec usec) 8] \<and>
                    sint usec = sint (load_int (mem w) valp) * 1000"
    by (intro exI [of _ ?usec]) simp
qed

lemma translate_RCVTIMEO:
  "translate NN_SOL_SOCKET NN_RCVTIMEO = Brk \<lparr>opt = NNG_OPT_RCVTIMEO, mscvt = 1\<rparr>"
  by (simp add: translate_def case_SOL_SOCKET_def nn_option_defs)

lemma nn_setsockopt_ms_conversion_RCVTIMEO:
  "translate NN_SOL_SOCKET NN_RCVTIMEO = Brk \<lparr>opt = NNG_OPT_RCVTIMEO, mscvt = 1\<rparr> \<and>
   mscvt \<lparr>opt = NNG_OPT_RCVTIMEO, mscvt = 1\<rparr> \<noteq> 0 \<and>
   nn_setsockopt env0 (world0\<lparr>mem := store_bytes (mem world0) 256 (int_bytes 250)\<rparr>) 3
       NN_SOL_SOCKET NN_RCVTIMEO 256 2 =
     (- 1, world0\<lparr>mem := store_bytes (mem world0) 256 (int_bytes 250), errno := EINVAL\<rparr>) \<and>
   (\<exists>usec. calls (snd (nn_setsockopt env0
                 (world0\<lparr>mem := store_bytes (mem world0) 256 (int_bytes 250)\<rparr>) 3
                 NN_SOL_SOCKET NN_RCVTIMEO 256 sizeof_int)) =
             [Ev_setopt 3 NNG_OPT_RCVTIMEO (Local_usec usec) 8] \<and>
           sint usec = 250000)"
proof -
  let ?st = "\<lparr>opt = NNG_OPT_RCVTIMEO, mscvt = 1\<rparr>"
  let ?w = "world0\<lparr>mem := store_bytes (mem world0) 256 (int_bytes 250)\<rparr>"
  have m: "mscvt ?st \<noteq> 0" by simp
  have v: "sint (load_int (mem ?w) 256) = 250" by (simp add: load_store_int)
  have s: "(2 :: size_t) \<noteq> sizeof_int" by (simp add: sizeof_int_def)
  have c: "calls ?w = []" by (simp add: world0_def)
  note t = nn_setsockopt_ms_conversion [OF translate_RCVTIMEO m, of _ env0 ?w 3 256]
  from t [of 2] s have a: "nn_setsockopt env0 ?w 3 NN_SOL_SOCKET NN_RCVTIMEO 256 2 =
      (- 1, ?w\<lparr>errno := EINVAL\<rparr>)" by blast
  from t [of sizeof_int] v c
  have b: "\<exists>usec. calls (snd (nn_setsockopt env0 ?w 3 NN_SOL_SOCKET NN_RCVTIMEO 256 sizeof_int)) =
             [Ev_setopt 3 NNG_OPT_RCVTIMEO (Local_usec usec) 8] \<and> sint usec = 250000"
    by auto
  from translate_RCVTIMEO m a b show ?thesis by simp
qed

text \<open>
  Claim C4 speaks of every option whose descriptor carries the millisecond-conversion
  flag. The body of \<open>case NN_SURVEYOR\<close> sets the flag for \<open>NN_SURVEY_DEADLINE\<close> as the
  other bodies do for their options, but control then falls into \<open>default\<close> and never
  reaches the conversion: with a size other than \<open>sizeof (int)\<close> the call fails with
  \<open>ENOPROTOOPT\<close>, not \<open>EINVAL\<close>, and with the size \<open>sizeof (int)\<close> it fails in the
  same way and forwards nothing.
\<close>

theorem nn_setsockopt_survey_deadline_not_converted:
  "case_SURVEYOR NN_SURVEY_DEADLINE \<lparr>opt = NNG_OPT_0, mscvt = 0\<rparr> =
     Fall \<lparr>opt = NNG_OPT_SURVEYTIME, mscvt = 1\<rparr> \<and>
   nn_setsockopt e w s NN_SURVEYOR NN_SURVEY_DEADLINE valp 2 = (- 1, w\<lparr>errno := ENOPROTOOPT\<rparr>) \<and>
   ENOPROTOOPT \<noteq> EINVAL \<and>
   nn_setsockopt e w s NN_SURVEYOR NN_SURVEY_DEADLINE valp sizeof_int =
     (- 1, w\<lparr>errno := ENOPROTOOPT\<rparr>) \<and>
   calls (snd (nn_setsockopt e w s NN_SURVEYOR NN_SURVEY_DEADLINE valp sizeof_int)) = calls w"
  by (simp add: nn_setsockopt_def translate_def nn_level_defs case_SURVEYOR_def case_default_def
      ENOPROTOOPT_def EINVAL_def)

section \<open>Receiving into buffers\<close>

lemma nn_flags_valid:
  "flags = 0 \<or> flags = NN_DONTWAIT \<Longrightarrow>
   nn_flags w flags = (if flags = 0 then 0 else NNG_FLAG_NONBLOCK, w)"
  by (auto simp: nn_flags_def)

lemma iov_range_wf:
  "msg_iovlen h = int (length (msg_iov h)) \<Longrightarrow> iov_range h = map Some (msg_iov h)"
  by (auto simp: iov_range_def iov_at_def intro: nth_equalityI)

lemma copyout_fixed:
  "\<forall>v\<in>set vs. iov_len v \<noteq> NN_MSG \<Longrightarrow>
   \<exists>w'. copyout w msg (map Some vs) ptr len = Some (Next () w') \<and>
        calls w' = calls w @ spec_scatter ptr len vs \<and> msgs w' = msgs w \<and> errno w' = errno w"
proof (induction vs arbitrary: w ptr len)
  case Nil
  then show ?case by simp
next
  case (Cons v vs)
  let ?n = "min len (iov_len v)"
  let ?w1 = "memcpy w (iov_base v) ptr ?n"
  from Cons.prems have nv: "iov_len v \<noteq> NN_MSG" and rest: "\<forall>v\<in>set vs. iov_len v \<noteq> NN_MSG"
    by simp_all
  have n: "(if iov_len v > len then len else iov_len v) = ?n" by (auto simp: min_def)
  from Cons.IH [OF rest, of ?w1 "ptr + ?n" "len - ?n"]
  obtain w' where w': "copyout ?w1 msg (map Some vs) (ptr + ?n) (len - ?n) = Some (Next () w')"
    "calls w' = calls ?w1 @ spec_scatter (ptr + ?n) (len - ?n) vs"
    "msgs w' = msgs ?w1" "errno w' = errno ?w1" by blast
  from nv w' n show ?case by (simp add: memcpy_def log_def Let_def)
qed

lemma spec_scatter_total:
  "sum_list (map copied (spec_scatter ptr len vs)) =
     min (unat len) (sum_list (map (\<lambda>v. unat (iov_len v)) vs))"
proof (induction vs arbitrary: ptr len)
  case Nil
  then show ?case by simp
next
  case (Cons v vs)
  show ?case
  proof (cases "len \<le> iov_len v")
    case True
    then have "min len (iov_len v) = len" by (simp add: min_def)
    moreover from True have "unat len \<le> unat (iov_len v)" by (simp add: word_le_nat_alt)
    ultimately show ?thesis using Cons.IH [of "ptr + len" 0] by simp
  next
    case False
    then have m: "min len (iov_len v) = iov_len v" by (simp add: min_def)
    from False have l: "unat (iov_len v) \<le> unat len" by (simp add: word_le_nat_alt)
    then have "unat (len - iov_len v) = unat len - unat (iov_len v)"
      by (simp add: unat_sub word_le_nat_alt)
    with m l show ?thesis using Cons.IH [of "ptr + iov_len v" "len - iov_len v"] by simp
  qed
qed

lemma recv_copyout_fixed:
  assumes wf: "msg_iovlen h = int (length (msg_iov h))"
    and nd: "\<forall>v\<in>set (msg_iov h). iov_len v \<noteq> NN_MSG"
    and live: "msgs w msg = Some m"
  shows "\<exists>w'. recv_copyout w h msg = Some (Next (body_len m, False) w') \<and>
           calls w' = calls w @ spec_scatter (body_ptr m) (body_len m) (msg_iov h) \<and>
           msgs w' = msgs w \<and> errno w' = errno w"
proof -
  from copyout_fixed [OF nd, of w msg "body_ptr m" "body_len m"]
  obtain w' where w': "copyout w msg (map Some (msg_iov h)) (body_ptr m) (body_len m) = Some (Next () w')"
    "calls w' = calls w @ spec_scatter (body_ptr m) (body_len m) (msg_iov h)"
    "msgs w' = msgs w" "errno w' = errno w" by blast
  with live show ?thesis
    by (simp add: recv_copyout_def iov_range_wf [OF wf] nng_msg_body_def nng_msg_len_def)
qed

lemma recv_body_fixed:
  assumes wf: "msg_iovlen h = int (length (msg_iov h))"
    and nd: "\<forall>v\<in>set (msg_iov h). iov_len v \<noteq> NN_MSG"
  shows "recv_body e w h msg = recv_copyout w h msg"
proof (cases "msg_iovlen h = 1")
  case True
  with wf obtain v where v: "msg_iov h = [v]" by (cases "msg_iov h") auto
  with nd have "iov_len v \<noteq> NN_MSG" by simp
  with True v show ?thesis by (simp add: recv_body_def iov_at_def)
next
  case False
  then show ?thesis by (simp add: recv_body_def)
qed

lemma fill_control_live:
  assumes "msgs w msg = Some m"
  shows "\<exists>w'. fill_control w msg cdata clen tlen = Some w' \<and> calls w' = calls w \<and>
           msgs w' = msgs w \<and> errno w' = errno w"
  using assms by (simp add: fill_control_def nng_msg_header_len_def)

lemma recv_control_fixed:
  assumes c: "msg_control h = NULL \<or> msg_controllen h \<noteq> NN_MSG"
    and live: "msgs w msg = Some m"
  shows "\<exists>w'. recv_control e w h msg = Some (Next () w') \<and>
           calls w' = calls w @
             (if msg_control h = NULL then []
              else [Ev_memset (msg_control h) (min (msg_controllen h) sizeof_cmsghdr)]) \<and>
           msgs w' = msgs w \<and> errno w' = errno w"
proof (cases "msg_control h = NULL")
  case True
  then show ?thesis by (simp add: recv_control_def)
next
  case False
  with c have nm: "msg_controllen h \<noteq> NN_MSG" by simp
  let ?n = "if msg_controllen h > sizeof_cmsghdr then sizeof_cmsghdr else msg_controllen h"
  let ?w1 = "memset0 w (msg_control h) ?n"
  have n: "?n = min (msg_controllen h) sizeof_cmsghdr" by (auto simp: min_def)
  have l1: "msgs ?w1 msg = Some m" using live by (simp add: memset0_def log_def)
  from fill_control_live [OF l1]
  obtain w' where w': "fill_control ?w1 msg (msg_control h)
        (NN_CMSG_SPACE (of_nat (length (header m)))) (msg_controllen h) = Some w'"
      "calls w' = calls ?w1" "msgs w' = msgs ?w1" "errno w' = errno ?w1"
    by blast
  from False nm live w' show ?thesis
    unfolding n [symmetric]
    by (simp add: recv_control_def nng_msg_header_len_def Let_def memset0_def log_def)
qed

lemma nng_msg_trim_live:
  assumes "msgs w h = Some m"
  shows "\<exists>rv w'. nng_msg_trim w h n = Some (rv, w') \<and> calls w' = calls w @ [Ev_msg_trim h n] \<and>
           errno w' = errno w \<and> (\<forall>k. msgs w k \<noteq> None \<longrightarrow> msgs w' k \<noteq> None)"
  using assms by (simp add: nng_msg_trim_def log_def)

lemma recv_control_dynamic_failed:
  assumes c: "msg_control h \<noteq> NULL" "msg_controllen h = NN_MSG"
    and bad: "alloc_rv e \<noteq> 0"
    and live: "msgs w msg = Some m"
  shows "\<exists>w'. recv_control e w h msg = Some (Failed w') \<and>
           calls w' = calls w @
             [Ev_msg_alloc (NN_CMSG_SPACE (of_nat (length (header m))) + sizeof_msg),
              Ev_msg_free msg] \<and>
           errno w' = to_posix (alloc_rv e)"
  using assms
  by (simp add: recv_control_def nng_msg_header_len_def nng_msg_alloc_def nng_msg_free_def
      nn_seterror_def log_def Let_def)

lemma recv_control_dynamic:
  assumes c: "msg_control h \<noteq> NULL" "msg_controllen h = NN_MSG"
    and ok: "alloc_rv e = 0"
    and live: "msgs w msg = Some m"
  shows "\<exists>w'. recv_control e w h msg = Some (Next () w') \<and>
           calls w' = calls w @
             [Ev_msg_alloc (NN_CMSG_SPACE (of_nat (length (header m))) + sizeof_msg),
              Ev_msg_trim (alloc_handle e) sizeof_msg] \<and>
           msgs w' msg \<noteq> None \<and> errno w' = errno w"
proof -
  define clen where "clen = NN_CMSG_SPACE (of_nat (length (header m)))"
  define nmsg where "nmsg = alloc_handle e"
  define nm where "nm = \<lparr>body_ptr = alloc_body e, body_len = clen + sizeof_msg, header = []\<rparr>"
  define w1 where "w1 = log (Ev_msg_alloc (clen + sizeof_msg)) (w\<lparr>msgs := (msgs w)(nmsg \<mapsto> nm)\<rparr>)"
  define w2 where "w2 = w1\<lparr>mem := store_ptr (mem w1) (alloc_body e) nmsg\<rparr>"
  have a: "nng_msg_alloc e w (clen + sizeof_msg) = (Inr nmsg, w1)"
    using ok by (simp add: nng_msg_alloc_def w1_def nmsg_def nm_def)
  have b: "nng_msg_body w1 nmsg = Some (alloc_body e)"
    by (simp add: nng_msg_body_def w1_def log_def nm_def)
  have l2: "msgs w2 nmsg = Some nm" by (simp add: w2_def w1_def log_def)
  from nng_msg_trim_live [OF l2, of sizeof_msg]
  obtain rv w3 where w3: "nng_msg_trim w2 nmsg sizeof_msg = Some (rv, w3)"
      "calls w3 = calls w2 @ [Ev_msg_trim nmsg sizeof_msg]" "errno w3 = errno w2"
      "\<forall>k. msgs w2 k \<noteq> None \<longrightarrow> msgs w3 k \<noteq> None"
    by blast
  have m2: "msgs w2 msg \<noteq> None" using live by (simp add: w2_def w1_def log_def)
  with w3(4) have m3: "msgs w3 msg \<noteq> None" by blast
  from l2 w3(4) have n3: "msgs w3 nmsg \<noteq> None" by auto
  then obtain cdata where cd: "nng_msg_body w3 nmsg = Some cdata"
    by (auto simp: nng_msg_body_def)
  define w4 where "w4 = w3\<lparr>mem := store_ptr (mem w3) (msg_control h) cdata\<rparr>"
  from m3 obtain m' where m4: "msgs w4 msg = Some m'" by (auto simp: w4_def)
  from fill_control_live [OF m4]
  obtain w5 where w5: "fill_control w4 msg cdata clen clen = Some w5" "calls w5 = calls w4"
      "msgs w5 = msgs w4" "errno w5 = errno w4"
    by blast
  have "recv_control e w h msg = Some (Next () w5)"
    using c live
    by (simp add: recv_control_def nng_msg_header_len_def Let_def clen_def [symmetric] a b
        w2_def [symmetric] w3(1) cd w4_def [symmetric] w5(1))
  moreover have "calls w5 = calls w @ [Ev_msg_alloc (clen + sizeof_msg), Ev_msg_trim nmsg sizeof_msg]"
    using w5(2) w3(2) by (simp add: w4_def w2_def w1_def log_def)
  moreover have "msgs w5 msg \<noteq> None" using w5(3) m4 by simp
  moreover have "errno w5 = errno w" using w5(4) w3(3) by (simp add: w4_def w2_def w1_def log_def)
  ultimately show ?thesis unfolding clen_def nmsg_def by blast
qed

lemma recv_control_outcome:
  assumes live: "msgs w msg = Some m"
  shows "\<exists>w'. recv_control e w h msg =
             Some (if msg_control h \<noteq> NULL \<and> msg_controllen h = NN_MSG \<and> alloc_rv e \<noteq> 0
                   then Failed w' else Next () w') \<and>
           calls w' = calls w @
             (if msg_control h = NULL then []
              else if msg_controllen h \<noteq> NN_MSG
                then [Ev_memset (msg_control h) (min (msg_controllen h) sizeof_cmsghdr)]
              else if alloc_rv e \<noteq> 0
                then [Ev_msg_alloc (NN_CMSG_SPACE (of_nat (length (header m))) + sizeof_msg),
                      Ev_msg_free msg]
              else [Ev_msg_alloc (NN_CMSG_SPACE (of_nat (length (header m))) + sizeof_msg),
                    Ev_msg_trim (alloc_handle e) sizeof_msg]) \<and>
           (if msg_control h \<noteq> NULL \<and> msg_controllen h = NN_MSG \<and> alloc_rv e \<noteq> 0
            then errno w' = to_posix (alloc_rv e) else msgs w' msg \<noteq> None)"
proof (cases "msg_control h = NULL \<or> msg_controllen h \<noteq> NN_MSG")
  case True
  from recv_control_fixed [OF True live, of e]
  obtain w' where "recv_control e w h msg = Some (Next () w')"
      "calls w' = calls w @
             (if msg_control h = NULL then []
              else [Ev_memset (msg_control h) (min (msg_controllen h) sizeof_cmsghdr)])"
      "msgs w' = msgs w"
    by blast
  with True live show ?thesis by auto
next
  case False
  then have c: "msg_control h \<noteq> NULL" "msg_controllen h = NN_MSG" by simp_all
  show ?thesis
  proof (cases "alloc_rv e = 0")
    case True
    from recv_control_dynamic [OF c True live] c True show ?thesis by auto
  next
    case bad: False
    from recv_control_dynamic_failed [OF c bad live] c bad show ?thesis by auto
  qed
qed

lemma nn_recvmsg_copyout:
  assumes fl: "flags = 0 \<or> flags = NN_DONTWAIT"
    and wf: "msg_iovlen h = int (length (msg_iov h))"
    and nd: "\<forall>v\<in>set (msg_iov h). iov_len v \<noteq> NN_MSG"
    and ok: "recv_rv e = 0"
  shows "\<exists>w'. nn_recvmsg e w s (Some h) flags =
              Some (if msg_control h \<noteq> NULL \<and> msg_controllen h = NN_MSG \<and> alloc_rv e \<noteq> 0
                    then - 1 else int_of_size (body_len (recv_msg e)), w') \<and>
            calls w' = calls w @
              [Ev_recvmsg s (if flags = 0 then 0 else NNG_FLAG_NONBLOCK)] @
              spec_scatter (body_ptr (recv_msg e)) (body_len (recv_msg e)) (msg_iov h) @
              (if msg_control h = NULL then []
               else if msg_controllen h \<noteq> NN_MSG
                 then [Ev_memset (msg_control h) (min (msg_controllen h) sizeof_cmsghdr)]
               else if alloc_rv e \<noteq> 0
                 then [Ev_msg_alloc
                         (NN_CMSG_SPACE (of_nat (length (header (recv_msg e)))) + sizeof_msg)]
               else [Ev_msg_alloc
                       (NN_CMSG_SPACE (of_nat (length (header (recv_msg e)))) + sizeof_msg),
                     Ev_msg_trim (alloc_handle e) sizeof_msg]) @
              [Ev_msg_free (recv_handle e)] \<and>
            (msg_control h \<noteq> NULL \<and> msg_controllen h = NN_MSG \<and> alloc_rv e \<noteq> 0 \<longrightarrow>
               errno w' = to_posix (alloc_rv e))"
proof -
  define fl where "fl = (if flags = 0 then 0 else NNG_FLAG_NONBLOCK)"
  define msg where "msg = recv_handle e"
  define m where "m = recv_msg e"
  define w1 where "w1 = log (Ev_recvmsg s fl) (w\<lparr>msgs := (msgs w)(msg \<mapsto> m)\<rparr>)"
  define failing where
    "failing = (msg_control h \<noteq> NULL \<and> msg_controllen h = NN_MSG \<and> alloc_rv e \<noteq> 0)"
  define ctl where "ctl =
     (if msg_control h = NULL then []
      else if msg_controllen h \<noteq> NN_MSG
        then [Ev_memset (msg_control h) (min (msg_controllen h) sizeof_cmsghdr)]
      else if alloc_rv e \<noteq> 0
        then [Ev_msg_alloc (NN_CMSG_SPACE (of_nat (length (header m))) + sizeof_msg)]
      else [Ev_msg_alloc (NN_CMSG_SPACE (of_nat (length (header m))) + sizeof_msg),
            Ev_msg_trim (alloc_handle e) sizeof_msg])"
  have f: "nn_flags w flags = (fl, w)" unfolding fl_def using fl by (rule nn_flags_valid)
  have f1: "fl \<noteq> - 1" by (simp add: fl_def NNG_FLAG_NONBLOCK_def)
  from wf have nn: "\<not> msg_iovlen h < 0" by simp
  have r: "nng_recvmsg e w s fl = (Inr msg, w1)"
    using ok by (simp add: nng_recvmsg_def w1_def msg_def m_def)
  have l1: "msgs w1 msg = Some m" by (simp add: w1_def log_def)
  have c1: "calls w1 = calls w @ [Ev_recvmsg s fl]" by (simp add: w1_def log_def)
  from recv_copyout_fixed [OF wf nd l1]
  obtain w2 where w2: "recv_body e w1 h msg = Some (Next (body_len m, False) w2)"
      "calls w2 = calls w1 @ spec_scatter (body_ptr m) (body_len m) (msg_iov h)"
      "msgs w2 = msgs w1" "errno w2 = errno w1"
    unfolding recv_body_fixed [OF wf nd] by blast
  from w2 l1 have l2: "msgs w2 msg = Some m" by simp
  from recv_control_outcome [OF l2, of e h]
  obtain w3 where w3: "recv_control e w2 h msg = Some (if failing then Failed w3 else Next () w3)"
      "calls w3 = calls w2 @ ctl @ (if failing then [Ev_msg_free msg] else [])"
      "if failing then errno w3 = to_posix (alloc_rv e) else msgs w3 msg \<noteq> None"
    unfolding failing_def ctl_def by auto
  show ?thesis
  proof (cases failing)
    case True
    with w3 have "nn_recvmsg e w s (Some h) flags = Some (- 1, w3)"
      unfolding nn_recvmsg_def f using f1 nn by (simp add: r w2(1))
    moreover from True w3 w2(2) c1 have "calls w3 =
        calls w @ [Ev_recvmsg s fl] @ spec_scatter (body_ptr m) (body_len m) (msg_iov h) @
          ctl @ [Ev_msg_free msg]"
      by simp
    moreover from True w3 have "errno w3 = to_posix (alloc_rv e)" by simp
    ultimately show ?thesis
      using True unfolding failing_def ctl_def fl_def msg_def m_def by auto
  next
    case False
    with w3 obtain m' where l3: "msgs w3 msg = Some m'" by auto
    define w4 where "w4 = log (Ev_msg_free msg) (w3\<lparr>msgs := (msgs w3)(msg := None)\<rparr>)"
    have fr: "nng_msg_free w3 msg = Some w4" using l3 by (simp add: nng_msg_free_def w4_def)
    from False w3 have "nn_recvmsg e w s (Some h) flags = Some (int_of_size (body_len m), w4)"
      unfolding nn_recvmsg_def f using f1 nn by (simp add: r w2(1) fr)
    moreover from False w3 w2(2) c1 have "calls w4 =
        calls w @ [Ev_recvmsg s fl] @ spec_scatter (body_ptr m) (body_len m) (msg_iov h) @
          ctl @ [Ev_msg_free msg]"
      by (simp add: w4_def log_def)
    ultimately show ?thesis
      using False unfolding failing_def ctl_def fl_def msg_def m_def by auto
  qed
qed

text \<open>
  Claim C7, as amended. When \<open>nn_recvmsg\<close> receives a message of body length \<open>L\<close> into
  fixed buffers (valid flags, a count that matches the array, no buffer of length
  \<open>NN_MSG\<close>), it makes exactly the copies of the scatter rule: each buffer in order gets
  \<open>min (remaining, capacity)\<close> bytes from where the previous copy ended, in total
  \<open>min (L, summed capacity)\<close> bytes, so the excess is dropped. Then the control data is
  served: nothing for a \<open>NULL\<close> pointer, a \<open>memset\<close> for a fixed control buffer, an
  allocation and a trim for a control request of length \<open>NN_MSG\<close>. Last, the message is
  freed. The value returned is \<open>(int) L\<close>, the original length and not the number of
  bytes copied, which equals \<open>L\<close> whenever \<open>L\<close> is at most \<open>INT_MAX\<close>; except that,
  when the allocation for a control request of length \<open>NN_MSG\<close> fails, the value
  returned after the same copies is \<open>-1\<close>, with the translated native error in
  \<open>errno\<close>.
\<close>

theorem nn_recvmsg_fixed_buffers:
  assumes fl: "flags = 0 \<or> flags = NN_DONTWAIT"
    and wf: "msg_iovlen h = int (length (msg_iov h))"
    and nd: "\<forall>v\<in>set (msg_iov h). iov_len v \<noteq> NN_MSG"
    and ok: "recv_rv e = 0"
  shows "(\<exists>w'. nn_recvmsg e w s (Some h) flags =
              Some (if msg_control h \<noteq> NULL \<and> msg_controllen h = NN_MSG \<and> alloc_rv e \<noteq> 0
                    then - 1 else int_of_size (body_len (recv_msg e)), w') \<and>
            calls w' = calls w @
              [Ev_recvmsg s (if flags = 0 then 0 else NNG_FLAG_NONBLOCK)] @
              spec_scatter (body_ptr (recv_msg e)) (body_len (recv_msg e)) (msg_iov h) @
              (if msg_control h = NULL then []
               else if msg_controllen h \<noteq> NN_MSG
                 then [Ev_memset (msg_control h) (min (msg_controllen h) sizeof_cmsghdr)]
               else if alloc_rv e \<noteq> 0
                 then [Ev_msg_alloc
                         (NN_CMSG_SPACE (of_nat (length (header (recv_msg e)))) + sizeof_msg)]
               else [Ev_msg_alloc
                       (NN_CMSG_SPACE (of_nat (length (header (recv_msg e)))) + sizeof_msg),
                     Ev_msg_trim (alloc_handle e) sizeof_msg]) @
              [Ev_msg_free (recv_handle e)] \<and>
            (msg_control h \<noteq> NULL \<and> msg_controllen h = NN_MSG \<and> alloc_rv e \<noteq> 0 \<longrightarrow>
               errno w' = to_posix (alloc_rv e))) \<and>
         sum_list (map copied
             (spec_scatter (body_ptr (recv_msg e)) (body_len (recv_msg e)) (msg_iov h))) =
           min (unat (body_len (recv_msg e))) (sum_list (map (\<lambda>v. unat (iov_len v)) (msg_iov h))) \<and>
         (unat (body_len (recv_msg e)) < 2147483648 \<longrightarrow>
            int_of_size (body_len (recv_msg e)) = int (unat (body_len (recv_msg e))))"
proof (intro conjI impI)
  from fl wf nd ok
  show "\<exists>w'. nn_recvmsg e w s (Some h) flags =
              Some (if msg_control h \<noteq> NULL \<and> msg_controllen h = NN_MSG \<and> alloc_rv e \<noteq> 0
                    then - 1 else int_of_size (body_len (recv_msg e)), w') \<and>
            calls w' = calls w @
              [Ev_recvmsg s (if flags = 0 then 0 else NNG_FLAG_NONBLOCK)] @
              spec_scatter (body_ptr (recv_msg e)) (body_len (recv_msg e)) (msg_iov h) @
              (if msg_control h = NULL then []
               else if msg_controllen h \<noteq> NN_MSG
                 then [Ev_memset (msg_control h) (min (msg_controllen h) sizeof_cmsghdr)]
               else if alloc_rv e \<noteq> 0
                 then [Ev_msg_alloc
                         (NN_CMSG_SPACE (of_nat (length (header (recv_msg e)))) + sizeof_msg)]
               else [Ev_msg_alloc
                       (NN_CMSG_SPACE (of_nat (length (header (recv_msg e)))) + sizeof_msg),
                     Ev_msg_trim (alloc_handle e) sizeof_msg]) @
              [Ev_msg_free (recv_handle e)] \<and>
            (msg_control h \<noteq> NULL \<and> msg_controllen h = NN_MSG \<and> alloc_rv e \<noteq> 0 \<longrightarrow>
               errno w' = to_posix (alloc_rv e))"
    by (rule nn_recvmsg_copyout)
next
  show "sum_list (map copied
             (spec_scatter (body_ptr (recv_msg e)) (body_len (recv_msg e)) (msg_iov h))) =
           min (unat (body_len (recv_msg e))) (sum_list (map (\<lambda>v. unat (iov_len v)) (msg_iov h)))"
    by (rule spec_scatter_total)
next
  assume "unat (body_len (recv_msg e)) < 2147483648"
  then show "int_of_size (body_len (recv_msg e)) = int (unat (body_len (recv_msg e)))"
    by (rule int_of_size_small)
qed

theorem nn_recvmsg_fixed_buffers_witness:
  "(\<exists>w'. nn_recvmsg env0 world0 3
          (Some \<lparr>msg_iov = [\<lparr>iov_base = 256, iov_len = 4\<rparr>, \<lparr>iov_base = 512, iov_len = 2\<rparr>],
                 msg_iovlen = 2, msg_control = NULL, msg_controllen = 0\<rparr>) 0 = Some (10, w') \<and>
        calls w' = [Ev_recvmsg 3 0, Ev_memcpy 256 24576 4, Ev_memcpy 512 24580 2,
                    Ev_msg_free 20480]) \<and>
   (\<exists>w'. nn_recvmsg env0 world0 3
          (Some \<lparr>msg_iov = [\<lparr>iov_base = 256, iov_len = 4\<rparr>, \<lparr>iov_base = 512, iov_len = 2\<rparr>],
                 msg_iovlen = 2, msg_control = 128, msg_controllen = NN_MSG\<rparr>) 0 = Some (10, w') \<and>
        calls w' = [Ev_recvmsg 3 0, Ev_memcpy 256 24576 4, Ev_memcpy 512 24580 2,
                    Ev_msg_alloc 24, Ev_msg_trim 4096 8, Ev_msg_free 20480])"
proof -
  let ?h = "\<lparr>msg_iov = [\<lparr>iov_base = 256, iov_len = 4\<rparr>, \<lparr>iov_base = 512, iov_len = 2\<rparr>],
                 msg_iovlen = 2, msg_control = NULL, msg_controllen = 0\<rparr>"
  let ?d = "\<lparr>msg_iov = [\<lparr>iov_base = 256, iov_len = 4\<rparr>, \<lparr>iov_base = 512, iov_len = 2\<rparr>],
                 msg_iovlen = 2, msg_control = 128, msg_controllen = NN_MSG\<rparr>"
  have fl: "(0 :: int) = 0 \<or> (0 :: int) = NN_DONTWAIT" by simp
  have wf: "msg_iovlen ?h = int (length (msg_iov ?h))" by simp
  have nd: "\<forall>v\<in>set (msg_iov ?h). iov_len v \<noteq> NN_MSG" by (simp add: NN_MSG_def)
  have wfd: "msg_iovlen ?d = int (length (msg_iov ?d))" by simp
  have ndd: "\<forall>v\<in>set (msg_iov ?d). iov_len v \<noteq> NN_MSG" by (simp add: NN_MSG_def)
  have ok: "recv_rv env0 = 0" by (simp add: env0_def)
  have small: "unat (body_len (recv_msg env0)) < 2147483648" by (simp add: env0_def)
  have sp: "NN_CMSG_SPACE 0 + sizeof_msg = 24"
    by (simp add: NN_CMSG_SPACE_def NN_CMSG_ALIGN_def sizeof_cmsghdr_def sizeof_msg_def)
  from nn_recvmsg_fixed_buffers [OF fl wf nd ok, of world0 3] small
  have "\<exists>w'. nn_recvmsg env0 world0 3 (Some ?h) 0 = Some (int (unat (body_len (recv_msg env0))), w') \<and>
            calls w' = calls world0 @
              [Ev_recvmsg 3 0] @
              spec_scatter (body_ptr (recv_msg env0)) (body_len (recv_msg env0)) (msg_iov ?h) @
              [] @ [Ev_msg_free (recv_handle env0)]"
    by auto
  then have a: "\<exists>w'. nn_recvmsg env0 world0 3 (Some ?h) 0 = Some (10, w') \<and>
        calls w' = [Ev_recvmsg 3 0, Ev_memcpy 256 24576 4, Ev_memcpy 512 24580 2,
                    Ev_msg_free 20480]"
    by (simp add: env0_def world0_def)
  have cn: "msg_control ?d \<noteq> NULL" by (simp add: NULL_def)
  from nn_recvmsg_fixed_buffers [OF fl wfd ndd ok, of world0 3] small cn ok
  have "\<exists>w'. nn_recvmsg env0 world0 3 (Some ?d) 0 = Some (int (unat (body_len (recv_msg env0))), w') \<and>
            calls w' = calls world0 @
              [Ev_recvmsg 3 0] @
              spec_scatter (body_ptr (recv_msg env0)) (body_len (recv_msg env0)) (msg_iov ?d) @
              [Ev_msg_alloc (NN_CMSG_SPACE (of_nat (length (header (recv_msg env0)))) + sizeof_msg),
               Ev_msg_trim (alloc_handle env0) sizeof_msg] @
              [Ev_msg_free (recv_handle env0)]"
    by (auto simp: env0_def)
  then have b: "\<exists>w'. nn_recvmsg env0 world0 3 (Some ?d) 0 = Some (10, w') \<and>
        calls w' = [Ev_recvmsg 3 0, Ev_memcpy 256 24576 4, Ev_memcpy 512 24580 2,
                    Ev_msg_alloc 24, Ev_msg_trim 4096 8, Ev_msg_free 20480]"
    by (simp add: env0_def world0_def sp) (simp add: sizeof_msg_def)
  from a b show ?thesis by simp
qed

text \<open>
  The claim as stated says that the returned length is \<open>L\<close> for every message received
  into fixed buffers. For a message of \<open>2^31\<close> bytes received into one buffer of 6
  bytes, the \<open>int\<close> returned is \<open>-2^31\<close>. For a message of 10 bytes received into
  buffers of 4 and 2 bytes with a control request of length \<open>NN_MSG\<close> whose allocation
  fails, the copies are made, the message is freed and the value returned is \<open>-1\<close>.
\<close>

theorem nn_recvmsg_length_counterexample:
  "body_len (recv_msg (env0\<lparr>recv_msg := \<lparr>body_ptr = 24576, body_len = 2147483648, header = []\<rparr>\<rparr>)) =
     2147483648 \<and>
   map_option fst
     (nn_recvmsg (env0\<lparr>recv_msg := \<lparr>body_ptr = 24576, body_len = 2147483648, header = []\<rparr>\<rparr>)
        world0 3
        (Some \<lparr>msg_iov = [\<lparr>iov_base = 256, iov_len = 6\<rparr>], msg_iovlen = 1,
               msg_control = NULL, msg_controllen = 0\<rparr>) 0) = Some (- 2147483648) \<and>
   body_len (recv_msg (env0\<lparr>alloc_rv := NNG_ENOMEM\<rparr>)) = 10 \<and>
   map_option fst
     (nn_recvmsg (env0\<lparr>alloc_rv := NNG_ENOMEM\<rparr>) world0 3
        (Some \<lparr>msg_iov = [\<lparr>iov_base = 256, iov_len = 4\<rparr>, \<lparr>iov_base = 512, iov_len = 2\<rparr>],
               msg_iovlen = 2, msg_control = 128, msg_controllen = NN_MSG\<rparr>) 0) = Some (- 1) \<and>
   map_option (calls \<circ> snd)
     (nn_recvmsg (env0\<lparr>alloc_rv := NNG_ENOMEM\<rparr>) world0 3
        (Some \<lparr>msg_iov = [\<lparr>iov_base = 256, iov_len = 4\<rparr>, \<lparr>iov_base = 512, iov_len = 2\<rparr>],
               msg_iovlen = 2, msg_control = 128, msg_controllen = NN_MSG\<rparr>) 0) =
     Some [Ev_recvmsg 3 0, Ev_memcpy 256 24576 4, Ev_memcpy 512 24580 2,
           Ev_msg_alloc 24, Ev_msg_free 20480]"
proof -
  let ?e = "env0\<lparr>recv_msg := \<lparr>body_ptr = 24576, body_len = 2147483648, header = []\<rparr>\<rparr>"
  let ?h = "\<lparr>msg_iov = [\<lparr>iov_base = 256, iov_len = 6\<rparr>], msg_iovlen = 1,
               msg_control = NULL, msg_controllen = 0\<rparr>"
  let ?f = "env0\<lparr>alloc_rv := NNG_ENOMEM\<rparr>"
  let ?d = "\<lparr>msg_iov = [\<lparr>iov_base = 256, iov_len = 4\<rparr>, \<lparr>iov_base = 512, iov_len = 2\<rparr>],
                 msg_iovlen = 2, msg_control = 128, msg_controllen = NN_MSG\<rparr>"
  have fl: "(0 :: int) = 0 \<or> (0 :: int) = NN_DONTWAIT" by simp
  have wf: "msg_iovlen ?h = int (length (msg_iov ?h))" by simp
  have nd: "\<forall>v\<in>set (msg_iov ?h). iov_len v \<noteq> NN_MSG" by (simp add: NN_MSG_def)
  have ok: "recv_rv ?e = 0" by (simp add: env0_def)
  have i: "int_of_size 2147483648 = - 2147483648" by (simp add: int_of_size_def)
  from nn_recvmsg_copyout [OF fl wf nd ok, of world0 3]
  obtain w' where "nn_recvmsg ?e world0 3 (Some ?h) 0 = Some (int_of_size (body_len (recv_msg ?e)), w')"
    by auto
  then have a: "map_option fst (nn_recvmsg ?e world0 3 (Some ?h) 0) = Some (- 2147483648)"
    by (simp add: i)
  have wfd: "msg_iovlen ?d = int (length (msg_iov ?d))" by simp
  have ndd: "\<forall>v\<in>set (msg_iov ?d). iov_len v \<noteq> NN_MSG" by (simp add: NN_MSG_def)
  have okf: "recv_rv ?f = 0" by (simp add: env0_def)
  have cn: "msg_control ?d \<noteq> NULL" by (simp add: NULL_def)
  have bad: "alloc_rv ?f \<noteq> 0" by (simp add: NNG_ENOMEM_def)
  have sp: "NN_CMSG_SPACE 0 + sizeof_msg = 24"
    by (simp add: NN_CMSG_SPACE_def NN_CMSG_ALIGN_def sizeof_cmsghdr_def sizeof_msg_def)
  from nn_recvmsg_copyout [OF fl wfd ndd okf, of world0 3] cn bad
  obtain w'' where w'': "nn_recvmsg ?f world0 3 (Some ?d) 0 = Some (- 1, w'')"
      "calls w'' = calls world0 @
              [Ev_recvmsg 3 0] @
              spec_scatter (body_ptr (recv_msg ?f)) (body_len (recv_msg ?f)) (msg_iov ?d) @
              [Ev_msg_alloc (NN_CMSG_SPACE (of_nat (length (header (recv_msg ?f)))) + sizeof_msg)] @
              [Ev_msg_free (recv_handle ?f)]"
    by auto
  from w''(2) have c: "calls w'' = [Ev_recvmsg 3 0, Ev_memcpy 256 24576 4, Ev_memcpy 512 24580 2,
           Ev_msg_alloc 24, Ev_msg_free 20480]"
    by (simp add: env0_def world0_def sp)
  have l: "body_len (recv_msg ?f) = 10" by (simp add: env0_def)
  from a l w''(1) c show ?thesis by simp
qed

section \<open>Malformed descriptors\<close>

lemma copyout_sentinel:
  assumes "\<forall>u\<in>set pre. iov_len u \<noteq> NN_MSG" and "iov_len v = NN_MSG" and "msgs w msg = Some m"
  shows "\<exists>w'. copyout w msg (map Some (pre @ v # rest)) ptr len = Some (Failed w') \<and>
           calls w' = calls w @ spec_scatter ptr len pre @ [Ev_msg_free msg] \<and>
           errno w' = EINVAL \<and> msgs w' msg = None"
  using assms
proof (induction pre arbitrary: w ptr len)
  case Nil
  then show ?case
    by (simp add: nng_msg_free_def nn_seterror_def to_posix_EINVAL log_def)
next
  case (Cons u pre)
  let ?n = "min len (iov_len u)"
  let ?w1 = "memcpy w (iov_base u) ptr ?n"
  from Cons.prems have nu: "iov_len u \<noteq> NN_MSG" and rest: "\<forall>u\<in>set pre. iov_len u \<noteq> NN_MSG"
    by simp_all
  have n: "(if iov_len u > len then len else iov_len u) = ?n" by (auto simp: min_def)
  have l1: "msgs ?w1 msg = Some m" using Cons.prems by (simp add: memcpy_def log_def)
  from Cons.IH [OF rest Cons.prems(2) l1, of "ptr + ?n" "len - ?n"]
  obtain w' where w': "copyout ?w1 msg (map Some (pre @ v # rest)) (ptr + ?n) (len - ?n) = Some (Failed w')"
    "calls w' = calls ?w1 @ spec_scatter (ptr + ?n) (len - ?n) pre @ [Ev_msg_free msg]"
    "errno w' = EINVAL" "msgs w' msg = None" by blast
  from nu w' n show ?case by (simp add: memcpy_def log_def Let_def)
qed

lemma nn_recvmsg_sentinel:
  assumes fl: "flags = 0 \<or> flags = NN_DONTWAIT"
    and wf: "msg_iovlen h = int (length (msg_iov h))"
    and many: "2 \<le> length (msg_iov h)"
    and split: "msg_iov h = pre @ v # rest"
    and pre: "\<forall>u\<in>set pre. iov_len u \<noteq> NN_MSG"
    and v: "iov_len v = NN_MSG"
    and ok: "recv_rv e = 0"
  shows "\<exists>w'. nn_recvmsg e w s (Some h) flags = Some (- 1, w') \<and>
           calls w' = calls w @
             [Ev_recvmsg s (if flags = 0 then 0 else NNG_FLAG_NONBLOCK)] @
             spec_scatter (body_ptr (recv_msg e)) (body_len (recv_msg e)) pre @
             [Ev_msg_free (recv_handle e)] \<and>
           errno w' = EINVAL \<and> msgs w' (recv_handle e) = None"
proof -
  define fl where "fl = (if flags = 0 then 0 else NNG_FLAG_NONBLOCK)"
  define msg where "msg = recv_handle e"
  define m where "m = recv_msg e"
  define w1 where "w1 = log (Ev_recvmsg s fl) (w\<lparr>msgs := (msgs w)(msg \<mapsto> m)\<rparr>)"
  have f: "nn_flags w flags = (fl, w)" unfolding fl_def using fl by (rule nn_flags_valid)
  have f1: "fl \<noteq> - 1" by (simp add: fl_def NNG_FLAG_NONBLOCK_def)
  from wf have nn: "\<not> msg_iovlen h < 0" by simp
  from wf many have n1: "msg_iovlen h \<noteq> 1" by simp
  have r: "nng_recvmsg e w s fl = (Inr msg, w1)"
    using ok by (simp add: nng_recvmsg_def w1_def msg_def m_def)
  have l1: "msgs w1 msg = Some m" by (simp add: w1_def log_def)
  have c1: "calls w1 = calls w @ [Ev_recvmsg s fl]" by (simp add: w1_def log_def)
  from copyout_sentinel [OF pre v l1, of rest "body_ptr m" "body_len m"]
  obtain w2 where w2: "copyout w1 msg (map Some (msg_iov h)) (body_ptr m) (body_len m) = Some (Failed w2)"
    "calls w2 = calls w1 @ spec_scatter (body_ptr m) (body_len m) pre @ [Ev_msg_free msg]"
    "errno w2 = EINVAL" "msgs w2 msg = None"
    unfolding split by blast
  have b: "recv_body e w1 h msg = Some (Failed w2)"
    using n1 l1 w2(1)
    by (simp add: recv_body_def recv_copyout_def iov_range_wf [OF wf] nng_msg_body_def
        nng_msg_len_def)
  have "nn_recvmsg e w s (Some h) flags = Some (- 1, w2)"
    unfolding nn_recvmsg_def f using f1 nn by (simp add: r b)
  with w2 c1 show ?thesis unfolding fl_def msg_def m_def by simp
qed

lemma negative_count_recv:
  "msg_iovlen h < 0 \<Longrightarrow>
   nn_recvmsg e w s (Some h) flags =
     Some (- 1, w\<lparr>errno := (if flags = 0 \<or> flags = NN_DONTWAIT then EMSGSIZE else EINVAL)\<rparr>)"
  by (simp add: nn_recvmsg_def nn_flags_def nn_seterror_def to_posix_EINVAL to_posix_EMSGSIZE
      NNG_FLAG_NONBLOCK_def NN_DONTWAIT_def)

lemma negative_count_send:
  "msg_iovlen h < 0 \<Longrightarrow>
   nn_sendmsg e w s (Some h) flags =
     Some (- 1, w\<lparr>errno := (if flags = 0 \<or> flags = NN_DONTWAIT then EMSGSIZE else EINVAL)\<rparr>)"
  by (simp add: nn_sendmsg_def nn_flags_def nn_seterror_def to_posix_EINVAL to_posix_EMSGSIZE
      NNG_FLAG_NONBLOCK_def NN_DONTWAIT_def)

lemma nn_recvmsg_recv_failed:
  assumes fl: "flags = 0 \<or> flags = NN_DONTWAIT"
    and nn: "\<not> msg_iovlen h < 0"
    and bad: "recv_rv e \<noteq> 0"
  shows "nn_recvmsg e w s (Some h) flags =
     Some (- 1, (log (Ev_recvmsg s (if flags = 0 then 0 else NNG_FLAG_NONBLOCK)) w)
                  \<lparr>errno := to_posix (recv_rv e)\<rparr>)"
  unfolding nn_recvmsg_def nn_flags_valid [OF fl] using nn bad
  by (simp add: nng_recvmsg_def nn_seterror_def NNG_FLAG_NONBLOCK_def)

text \<open>
  \<open>nn_sendmsg\<close> has no test for a buffer of length \<open>NN_MSG\<close> among several: the
  lengths are added up in \<open>size_t\<close>, here to \<open>NN_MSG + 5 = 4\<close>, and the native
  allocation is attempted with that size.
\<close>

lemma nn_sendmsg_sentinel_not_checked:
  "nn_sendmsg (env0\<lparr>alloc_rv := NNG_ENOMEM\<rparr>) world0 3
     (Some \<lparr>msg_iov = [\<lparr>iov_base = 256, iov_len = NN_MSG\<rparr>, \<lparr>iov_base = 512, iov_len = 5\<rparr>],
            msg_iovlen = 2, msg_control = NULL, msg_controllen = 0\<rparr>) 0 =
   Some (- 1, world0\<lparr>errno := ENOMEM, calls := [Ev_msg_alloc 4]\<rparr>)"
proof -
  let ?h = "\<lparr>msg_iov = [\<lparr>iov_base = 256, iov_len = NN_MSG\<rparr>, \<lparr>iov_base = 512, iov_len = 5\<rparr>],
            msg_iovlen = 2, msg_control = NULL, msg_controllen = 0\<rparr>"
  have wf: "msg_iovlen ?h = int (length (msg_iov ?h))" by simp
  have t: "iov_total (iov_range ?h) 0 = Some 4"
    unfolding iov_range_wf [OF wf] by (simp add: NN_MSG_def)
  have "send_gather (env0\<lparr>alloc_rv := NNG_ENOMEM\<rparr>) world0 ?h =
      Some (Failed (world0\<lparr>errno := ENOMEM, calls := [Ev_msg_alloc 4]\<rparr>))"
    by (simp add: send_gather_def send_gather_copy_def t nng_msg_alloc_def NNG_ENOMEM_def
        nn_seterror_def to_posix_ENOMEM [unfolded NNG_ENOMEM_def] log_def world0_def)
  then show ?thesis
    by (simp add: nn_sendmsg_def nn_flags_def)
qed

text \<open>
  Claim C3, as amended. A call of \<open>nn_recvmsg\<close> or \<open>nn_sendmsg\<close> with a negative buffer
  count fails at once: it returns \<open>-1\<close> with \<open>errno = EMSGSIZE\<close> (\<open>EINVAL\<close> when the
  flags are invalid too) and calls nothing of the native layer. A call of \<open>nn_recvmsg\<close>
  with valid flags and a buffer of length \<open>NN_MSG\<close> among two or more buffers first
  performs the native receive. When that delivers a message, the buffers in front of the
  first \<open>NN_MSG\<close> buffer are filled, the message is freed, and the call returns \<open>-1\<close>
  with \<open>errno = EINVAL\<close>; when the receive fails, the call returns \<open>-1\<close> with the
  translated error of the receive.
\<close>

theorem malformed_descriptor:
  "(msg_iovlen h < 0 \<longrightarrow>
      nn_recvmsg e w s (Some h) flags =
        Some (- 1, w\<lparr>errno := (if flags = 0 \<or> flags = NN_DONTWAIT then EMSGSIZE else EINVAL)\<rparr>) \<and>
      nn_sendmsg e w s (Some h) flags =
        Some (- 1, w\<lparr>errno := (if flags = 0 \<or> flags = NN_DONTWAIT then EMSGSIZE else EINVAL)\<rparr>)) \<and>
   ((flags = 0 \<or> flags = NN_DONTWAIT) \<longrightarrow> msg_iovlen h = int (length (msg_iov h)) \<longrightarrow>
    2 \<le> length (msg_iov h) \<longrightarrow> msg_iov h = pre @ v # rest \<longrightarrow>
    (\<forall>u\<in>set pre. iov_len u \<noteq> NN_MSG) \<longrightarrow> iov_len v = NN_MSG \<longrightarrow>
      (recv_rv e = 0 \<longrightarrow>
         (\<exists>w'. nn_recvmsg e w s (Some h) flags = Some (- 1, w') \<and>
               calls w' = calls w @
                 [Ev_recvmsg s (if flags = 0 then 0 else NNG_FLAG_NONBLOCK)] @
                 spec_scatter (body_ptr (recv_msg e)) (body_len (recv_msg e)) pre @
                 [Ev_msg_free (recv_handle e)] \<and>
               errno w' = EINVAL \<and> msgs w' (recv_handle e) = None)) \<and>
      (recv_rv e \<noteq> 0 \<longrightarrow>
         nn_recvmsg e w s (Some h) flags =
           Some (- 1, (log (Ev_recvmsg s (if flags = 0 then 0 else NNG_FLAG_NONBLOCK)) w)
                        \<lparr>errno := to_posix (recv_rv e)\<rparr>)))"
proof (intro conjI impI)
  assume "msg_iovlen h < 0"
  then show "nn_recvmsg e w s (Some h) flags =
        Some (- 1, w\<lparr>errno := (if flags = 0 \<or> flags = NN_DONTWAIT then EMSGSIZE else EINVAL)\<rparr>)"
    by (rule negative_count_recv)
next
  assume "msg_iovlen h < 0"
  then show "nn_sendmsg e w s (Some h) flags =
        Some (- 1, w\<lparr>errno := (if flags = 0 \<or> flags = NN_DONTWAIT then EMSGSIZE else EINVAL)\<rparr>)"
    by (rule negative_count_send)
next
  assume "flags = 0 \<or> flags = NN_DONTWAIT" "msg_iovlen h = int (length (msg_iov h))"
    "2 \<le> length (msg_iov h)" "msg_iov h = pre @ v # rest"
    "\<forall>u\<in>set pre. iov_len u \<noteq> NN_MSG" "iov_len v = NN_MSG" "recv_rv e = 0"
  then show "\<exists>w'. nn_recvmsg e w s (Some h) flags = Some (- 1, w') \<and>
               calls w' = calls w @
                 [Ev_recvmsg s (if flags = 0 then 0 else NNG_FLAG_NONBLOCK)] @
                 spec_scatter (body_ptr (recv_msg e)) (body_len (recv_msg e)) pre @
                 [Ev_msg_free (recv_handle e)] \<and>
               errno w' = EINVAL \<and> msgs w' (recv_handle e) = None"
    by (rule nn_recvmsg_sentinel)
next
  assume fl: "flags = 0 \<or> flags = NN_DONTWAIT" and wf: "msg_iovlen h = int (length (msg_iov h))"
    and bad: "recv_rv e \<noteq> 0"
  from wf have "\<not> msg_iovlen h < 0" by simp
  with fl show "nn_recvmsg e w s (Some h) flags =
           Some (- 1, (log (Ev_recvmsg s (if flags = 0 then 0 else NNG_FLAG_NONBLOCK)) w)
                        \<lparr>errno := to_posix (recv_rv e)\<rparr>)"
    using bad by (rule nn_recvmsg_recv_failed)
qed

theorem malformed_descriptor_witness:
  "nn_recvmsg env0 world0 3
     (Some \<lparr>msg_iov = [], msg_iovlen = - 1, msg_control = NULL, msg_controllen = 0\<rparr>) 0 =
     Some (- 1, world0\<lparr>errno := EMSGSIZE\<rparr>) \<and>
   nn_sendmsg env0 world0 3
     (Some \<lparr>msg_iov = [], msg_iovlen = - 1, msg_control = NULL, msg_controllen = 0\<rparr>) 0 =
     Some (- 1, world0\<lparr>errno := EMSGSIZE\<rparr>) \<and>
   (\<exists>w'. nn_recvmsg env0 world0 3
          (Some \<lparr>msg_iov = [\<lparr>iov_base = 256, iov_len = 4\<rparr>, \<lparr>iov_base = 512, iov_len = NN_MSG\<rparr>],
                 msg_iovlen = 2, msg_control = NULL, msg_controllen = 0\<rparr>) 0 = Some (- 1, w') \<and>
        calls w' = [Ev_recvmsg 3 0, Ev_memcpy 256 24576 4, Ev_msg_free 20480] \<and>
        errno w' = EINVAL \<and> msgs w' 20480 = None)"
proof -
  let ?n = "\<lparr>msg_iov = [], msg_iovlen = - 1, msg_control = NULL, msg_controllen = 0\<rparr>"
  let ?h = "\<lparr>msg_iov = [\<lparr>iov_base = 256, iov_len = 4\<rparr>, \<lparr>iov_base = 512, iov_len = NN_MSG\<rparr>],
               msg_iovlen = 2, msg_control = NULL, msg_controllen = 0\<rparr>"
  have neg: "msg_iovlen ?n < 0" by simp
  have fl: "(0 :: int) = 0 \<or> (0 :: int) = NN_DONTWAIT" by simp
  have wf: "msg_iovlen ?h = int (length (msg_iov ?h))" by simp
  have many: "2 \<le> length (msg_iov ?h)" by simp
  have split: "msg_iov ?h = [\<lparr>iov_base = 256, iov_len = 4\<rparr>] @ \<lparr>iov_base = 512, iov_len = NN_MSG\<rparr> # []"
    by simp
  have pre: "\<forall>u\<in>set [\<lparr>iov_base = 256, iov_len = 4 :: size_t\<rparr>]. iov_len u \<noteq> NN_MSG"
    by (simp add: NN_MSG_def)
  have v: "iov_len \<lparr>iov_base = 512 :: addr, iov_len = NN_MSG\<rparr> = NN_MSG" by simp
  have ok: "recv_rv env0 = 0" by (simp add: env0_def)
  from malformed_descriptor [of ?n env0 world0 3 0] neg
  have a: "nn_recvmsg env0 world0 3 (Some ?n) 0 = Some (- 1, world0\<lparr>errno := EMSGSIZE\<rparr>) \<and>
      nn_sendmsg env0 world0 3 (Some ?n) 0 = Some (- 1, world0\<lparr>errno := EMSGSIZE\<rparr>)"
    by simp
  from malformed_descriptor [of ?h env0 world0 3 0 "[\<lparr>iov_base = 256, iov_len = 4\<rparr>]"
      "\<lparr>iov_base = 512, iov_len = NN_MSG\<rparr>" "[]"] fl wf many split pre v ok
  have "\<exists>w'. nn_recvmsg env0 world0 3 (Some ?h) 0 = Some (- 1, w') \<and>
               calls w' = calls world0 @ [Ev_recvmsg 3 (if (0 :: int) = 0 then 0 else NNG_FLAG_NONBLOCK)] @
                 spec_scatter (body_ptr (recv_msg env0)) (body_len (recv_msg env0))
                   [\<lparr>iov_base = 256, iov_len = 4\<rparr>] @
                 [Ev_msg_free (recv_handle env0)] \<and>
               errno w' = EINVAL \<and> msgs w' (recv_handle env0) = None"
    by blast
  then have b: "\<exists>w'. nn_recvmsg env0 world0 3 (Some ?h) 0 = Some (- 1, w') \<and>
        calls w' = [Ev_recvmsg 3 0, Ev_memcpy 256 24576 4, Ev_msg_free 20480] \<and>
        errno w' = EINVAL \<and> msgs w' 20480 = None"
    by (simp add: env0_def world0_def)
  from a b show ?thesis by blast
qed

text \<open>
  The claim as stated says that no native receive is attempted for such a descriptor.
  With two buffers, the second of length \<open>NN_MSG\<close>, \<open>nn_recvmsg\<close> calls \<open>nng_recvmsg\<close>,
  copies four bytes into the first buffer, frees the received message and returns \<open>-1\<close>.
\<close>

theorem malformed_descriptor_counterexample:
  "map_option fst
     (nn_recvmsg env0 world0 3
        (Some \<lparr>msg_iov = [\<lparr>iov_base = 256, iov_len = 4\<rparr>, \<lparr>iov_base = 512, iov_len = NN_MSG\<rparr>],
               msg_iovlen = 2, msg_control = NULL, msg_controllen = 0\<rparr>) 0) = Some (- 1) \<and>
   map_option (calls \<circ> snd)
     (nn_recvmsg env0 world0 3
        (Some \<lparr>msg_iov = [\<lparr>iov_base = 256, iov_len = 4\<rparr>, \<lparr>iov_base = 512, iov_len = NN_MSG\<rparr>],
               msg_iovlen = 2, msg_control = NULL, msg_controllen = 0\<rparr>) 0) =
     Some [Ev_recvmsg 3 0, Ev_memcpy 256 24576 4, Ev_msg_free 20480]"
proof -
  let ?h = "\<lparr>msg_iov = [\<lparr>iov_base = 256, iov_len = 4\<rparr>, \<lparr>iov_base = 512, iov_len = NN_MSG\<rparr>],
               msg_iovlen = 2, msg_control = NULL, msg_controllen = 0\<rparr>"
  have fl: "(0 :: int) = 0 \<or> (0 :: int) = NN_DONTWAIT" by simp
  have wf: "msg_iovlen ?h = int (length (msg_iov ?h))" by simp
  have many: "2 \<le> length (msg_iov ?h)" by simp
  have split: "msg_iov ?h = [\<lparr>iov_base = 256, iov_len = 4\<rparr>] @ \<lparr>iov_base = 512, iov_len = NN_MSG\<rparr> # []"
    by simp
  have pre: "\<forall>u\<in>set [\<lparr>iov_base = 256, iov_len = 4 :: size_t\<rparr>]. iov_len u \<noteq> NN_MSG"
    by (simp add: NN_MSG_def)
  have v: "iov_len \<lparr>iov_base = 512 :: addr, iov_len = NN_MSG\<rparr> = NN_MSG" by simp
  have ok: "recv_rv env0 = 0" by (simp add: env0_def)
  from nn_recvmsg_sentinel [OF fl wf many split pre v ok, of world0 3]
  obtain w' where "nn_recvmsg env0 world0 3 (Some ?h) 0 = Some (- 1, w')"
    "calls w' = calls world0 @ [Ev_recvmsg 3 0] @
        spec_scatter (body_ptr (recv_msg env0)) (body_len (recv_msg env0))
          [\<lparr>iov_base = 256, iov_len = 4\<rparr>] @ [Ev_msg_free (recv_handle env0)]"
    by auto
  then show ?thesis by (simp add: env0_def world0_def)
qed

section \<open>Sending with control data\<close>

lemma nn_sendmsg_after_gather:
  assumes fl: "flags = 0 \<or> flags = NN_DONTWAIT"
    and nn: "\<not> msg_iovlen h < 0"
    and g: "send_gather e w h = Some (Next (msg, keep) w1)"
  shows "nn_sendmsg e w s (Some h) flags =
     do {
       c \<leftarrow> send_control e w1 h msg keep;
       case c of
         Failed w2 \<Rightarrow> Some (- 1, w2)
       | Next cmsg w2 \<Rightarrow> do {
           sz \<leftarrow> nng_msg_len w2 msg;
           (rv, w3) \<leftarrow> nng_sendmsg e w2 s msg (if flags = 0 then 0 else NNG_FLAG_NONBLOCK);
           if rv \<noteq> 0 then do {
             w4 \<leftarrow> (if \<not> keep then nng_msg_free w3 msg else Some w3);
             Some (- 1, nn_seterror w4 rv)
           } else do {
             w4 \<leftarrow> (if cmsg \<noteq> NULL then nng_msg_free w3 cmsg else Some w3);
             Some (int_of_size sz, w4)
           }
         }
     }"
  unfolding nn_sendmsg_def nn_flags_valid [OF fl] using nn g
  by (simp add: NNG_FLAG_NONBLOCK_def)

lemma nn_sendmsg_control_cases:
  assumes fl: "flags = 0 \<or> flags = NN_DONTWAIT"
    and nn: "\<not> msg_iovlen h < 0"
    and g: "send_gather e w h = Some (Next (msg, keep) w1)"
    and c1: "msg_control h \<noteq> NULL" and c2: "msg_controllen h = NN_MSG"
    and cm: "msgs w1 (control_envelope w1 h) = Some cm"
    and mm: "msgs w1 msg = Some mm"
    and ne: "msg \<noteq> control_envelope w1 h"
    and z: "control_envelope w1 h \<noteq> NULL"
  shows "\<exists>ret w' evs. nn_sendmsg e w s (Some h) flags = Some (ret, w') \<and>
           calls w' = calls w1 @ evs \<and>
           (if append_rv e \<noteq> 0 then
              ret = - 1 \<and> msgs w' (control_envelope w1 h) = Some cm \<and>
              evs = Ev_msg_append_header msg (load_ptr (mem w1) (msg_control h)) (body_len cm) #
                    (if keep then [] else [Ev_msg_free msg])
            else if send_rv e \<noteq> 0 then
              ret = - 1 \<and> msgs w' (control_envelope w1 h) = Some cm \<and>
              evs = [Ev_msg_append_header msg (load_ptr (mem w1) (msg_control h)) (body_len cm),
                     Ev_sendmsg s msg (if flags = 0 then 0 else NNG_FLAG_NONBLOCK)] @
                    (if keep then [] else [Ev_msg_free msg])
            else
              ret = int_of_size (body_len mm) \<and> msgs w' (control_envelope w1 h) = None \<and>
              evs = [Ev_msg_append_header msg (load_ptr (mem w1) (msg_control h)) (body_len cm),
                     Ev_sendmsg s msg (if flags = 0 then 0 else NNG_FLAG_NONBLOCK),
                     Ev_msg_free (control_envelope w1 h)])"
proof -
  define cdata where "cdata = load_ptr (mem w1) (msg_control h)"
  define cmsg where "cmsg = control_envelope w1 h"
  define fl' where "fl' = (if flags = 0 then 0 else NNG_FLAG_NONBLOCK)"
  have ce: "load_ptr (mem w1) (cdata - sizeof_msg) = cmsg"
    by (simp add: cmsg_def cdata_def control_envelope_def)
  note cm' = cm [folded cmsg_def] and ne' = ne [folded cmsg_def] and z' = z [folded cmsg_def]
  note start = nn_sendmsg_after_gather [OF fl nn g, of s, folded fl'_def]
  show ?thesis
  proof (cases "append_rv e \<noteq> 0")
    case True
    with c1 c2 cm' mm ne' show ?thesis
      unfolding start cmsg_def [symmetric] cdata_def [symmetric] fl'_def [symmetric]
      by (cases keep)
        (simp_all add: send_control_def Let_def ce [unfolded cdata_def] cdata_def [symmetric]
          ce nng_msg_len_def nng_msg_append_header_def nng_msg_free_def log_def nn_seterror_def)
  next
    case False
    note a = this
    show ?thesis
    proof (cases "send_rv e \<noteq> 0")
      case True
      with a c1 c2 cm' mm ne' show ?thesis
        unfolding start cmsg_def [symmetric] cdata_def [symmetric] fl'_def [symmetric]
        by (cases keep)
          (simp_all add: send_control_def Let_def ce [unfolded cdata_def] cdata_def [symmetric]
            ce nng_msg_len_def nng_msg_append_header_def nng_msg_free_def nng_sendmsg_def
            log_def nn_seterror_def)
    next
      case False
      with a c1 c2 cm' mm ne' z' show ?thesis
        unfolding start cmsg_def [symmetric] cdata_def [symmetric] fl'_def [symmetric]
        by (simp add: send_control_def Let_def ce [unfolded cdata_def] cdata_def [symmetric]
            ce nng_msg_len_def nng_msg_append_header_def nng_msg_free_def nng_sendmsg_def
            log_def nn_seterror_def)
    qed
  qed
qed

text \<open>
  Claim C8. Take a call of \<open>nn_sendmsg\<close> with valid flags whose gather step has produced
  the message \<open>msg\<close> in state \<open>w1\<close>, and whose control data is an envelope (control
  length \<open>NN_MSG\<close>): a live message other than \<open>msg\<close>, found through the handle hidden
  in front of the address stored at \<open>msg_control\<close>. The call is defined, and
  \<^item> when appending the header or the native send fails, it returns \<open>-1\<close>, the control
    envelope is live and unchanged, and no \<open>nng_msg_free\<close> of it is among the calls made;
  \<^item> when both succeed, the calls made after the gather step are the header append, the
    native send and then the \<open>nng_msg_free\<close> of the control envelope, which is no longer
    live.
\<close>

theorem nn_sendmsg_control_envelope:
  assumes fl: "flags = 0 \<or> flags = NN_DONTWAIT"
    and nn: "\<not> msg_iovlen h < 0"
    and g: "send_gather e w h = Some (Next (msg, keep) w1)"
    and c1: "msg_control h \<noteq> NULL" and c2: "msg_controllen h = NN_MSG"
    and cm: "msgs w1 (control_envelope w1 h) = Some cm"
    and mm: "msgs w1 msg = Some mm"
    and ne: "msg \<noteq> control_envelope w1 h"
    and z: "control_envelope w1 h \<noteq> NULL"
  shows "\<exists>ret w'. nn_sendmsg e w s (Some h) flags = Some (ret, w') \<and>
           (append_rv e \<noteq> 0 \<or> send_rv e \<noteq> 0 \<longrightarrow>
              ret = - 1 \<and> msgs w' (control_envelope w1 h) = Some cm \<and>
              Ev_msg_free (control_envelope w1 h) \<notin> set (drop (length (calls w1)) (calls w'))) \<and>
           (append_rv e = 0 \<and> send_rv e = 0 \<longrightarrow>
              msgs w' (control_envelope w1 h) = None \<and>
              drop (length (calls w1)) (calls w') =
                [Ev_msg_append_header msg (load_ptr (mem w1) (msg_control h)) (body_len cm),
                 Ev_sendmsg s msg (if flags = 0 then 0 else NNG_FLAG_NONBLOCK),
                 Ev_msg_free (control_envelope w1 h)])"
proof -
  from nn_sendmsg_control_cases [OF assms, of s]
  obtain ret w' evs where r: "nn_sendmsg e w s (Some h) flags = Some (ret, w')"
    and cs: "calls w' = calls w1 @ evs"
    and k: "if append_rv e \<noteq> 0 then
              ret = - 1 \<and> msgs w' (control_envelope w1 h) = Some cm \<and>
              evs = Ev_msg_append_header msg (load_ptr (mem w1) (msg_control h)) (body_len cm) #
                    (if keep then [] else [Ev_msg_free msg])
            else if send_rv e \<noteq> 0 then
              ret = - 1 \<and> msgs w' (control_envelope w1 h) = Some cm \<and>
              evs = [Ev_msg_append_header msg (load_ptr (mem w1) (msg_control h)) (body_len cm),
                     Ev_sendmsg s msg (if flags = 0 then 0 else NNG_FLAG_NONBLOCK)] @
                    (if keep then [] else [Ev_msg_free msg])
            else
              ret = int_of_size (body_len mm) \<and> msgs w' (control_envelope w1 h) = None \<and>
              evs = [Ev_msg_append_header msg (load_ptr (mem w1) (msg_control h)) (body_len cm),
                     Ev_sendmsg s msg (if flags = 0 then 0 else NNG_FLAG_NONBLOCK),
                     Ev_msg_free (control_envelope w1 h)]"
    by blast
  from cs have d: "drop (length (calls w1)) (calls w') = evs" by simp
  from k ne have "(append_rv e \<noteq> 0 \<or> send_rv e \<noteq> 0 \<longrightarrow>
              ret = - 1 \<and> msgs w' (control_envelope w1 h) = Some cm \<and>
              Ev_msg_free (control_envelope w1 h) \<notin> set evs) \<and>
           (append_rv e = 0 \<and> send_rv e = 0 \<longrightarrow>
              msgs w' (control_envelope w1 h) = None \<and>
              evs =
                [Ev_msg_append_header msg (load_ptr (mem w1) (msg_control h)) (body_len cm),
                 Ev_sendmsg s msg (if flags = 0 then 0 else NNG_FLAG_NONBLOCK),
                 Ev_msg_free (control_envelope w1 h)])"
    by (auto split: if_splits)
  with r d show ?thesis by blast
qed

lemma world2_control: "load_ptr (mem world2) 256 = 12296"
  by (simp add: world2_def load_store_ptr)

lemma world2_hidden: "load_ptr (mem world2) 12288 = 4352"
proof -
  have "load_ptr (store_ptr (store_ptr (mem world0) 12288 4352) 256 12296) 12288 =
      load_ptr (store_ptr (mem world0) 12288 4352) 12288"
    by (rule load_ptr_store_ptr_disjoint) simp_all
  then show ?thesis by (simp add: world2_def load_store_ptr)
qed

lemma world3_gather:
  "send_gather e world2
     \<lparr>msg_iov = [], msg_iovlen = 0, msg_control = 256, msg_controllen = NN_MSG\<rparr> =
   (if alloc_rv e \<noteq> 0 then Some (Failed (nn_seterror (log (Ev_msg_alloc 0) world2) (alloc_rv e)))
    else Some (Next (alloc_handle e, False)
           (log (Ev_msg_alloc 0)
             (world2\<lparr>msgs := (msgs world2)(alloc_handle e \<mapsto>
                  \<lparr>body_ptr = alloc_body e, body_len = 0, header = []\<rparr>)\<rparr>))))"
  by (simp add: send_gather_def send_gather_copy_def iov_range_def nng_msg_alloc_def
      nng_msg_body_def log_def)

lemma world3_envelope:
  "control_envelope world3
     \<lparr>msg_iov = [], msg_iovlen = 0, msg_control = 256, msg_controllen = NN_MSG\<rparr> = 4352"
proof -
  have m: "mem world3 = mem world2" by (simp add: world3_def log_def)
  have s: "(12296 :: addr) - sizeof_msg = 12288" by (simp add: sizeof_msg_def)
  show ?thesis
    by (simp add: control_envelope_def m world2_control s world2_hidden)
qed

theorem nn_sendmsg_control_envelope_witness:
  "send_gather env0 world2
     \<lparr>msg_iov = [], msg_iovlen = 0, msg_control = 256, msg_controllen = NN_MSG\<rparr> =
     Some (Next (4096, False) world3) \<and>
   control_envelope world3
     \<lparr>msg_iov = [], msg_iovlen = 0, msg_control = 256, msg_controllen = NN_MSG\<rparr> = 4352 \<and>
   msgs world3 4352 = Some \<lparr>body_ptr = 12296, body_len = 3, header = []\<rparr> \<and>
   msgs world3 4096 = Some \<lparr>body_ptr = 8192, body_len = 0, header = []\<rparr> \<and>
   (\<exists>ret w'. nn_sendmsg env0 world2 3
        (Some \<lparr>msg_iov = [], msg_iovlen = 0, msg_control = 256, msg_controllen = NN_MSG\<rparr>) 0 =
        Some (ret, w') \<and>
      msgs w' 4352 = None \<and>
      drop (length (calls world3)) (calls w') =
        [Ev_msg_append_header 4096 12296 3, Ev_sendmsg 3 4096 0, Ev_msg_free 4352]) \<and>
   (\<exists>w'. nn_sendmsg (env0\<lparr>send_rv := NNG_ETIMEDOUT\<rparr>) world2 3
        (Some \<lparr>msg_iov = [], msg_iovlen = 0, msg_control = 256, msg_controllen = NN_MSG\<rparr>) 0 =
        Some (- 1, w') \<and>
      msgs w' 4352 = Some \<lparr>body_ptr = 12296, body_len = 3, header = []\<rparr> \<and>
      Ev_msg_free 4352 \<notin> set (drop (length (calls world3)) (calls w')))"
proof -
  let ?h = "\<lparr>msg_iov = [], msg_iovlen = 0, msg_control = 256, msg_controllen = NN_MSG\<rparr>"
  let ?cm = "\<lparr>body_ptr = 12296, body_len = 3, header = []\<rparr> :: nng_msg"
  let ?mm = "\<lparr>body_ptr = 8192, body_len = 0, header = []\<rparr> :: nng_msg"
  have fl: "(0 :: int) = 0 \<or> (0 :: int) = NN_DONTWAIT" by simp
  have nn: "\<not> msg_iovlen ?h < 0" by simp
  have g: "send_gather env0 world2 ?h = Some (Next (4096, False) world3)"
    unfolding world3_gather by (simp add: env0_def world3_def)
  have c1: "msg_control ?h \<noteq> NULL" by (simp add: NULL_def)
  have c2: "msg_controllen ?h = NN_MSG" by simp
  note ce = world3_envelope
  have cm: "msgs world3 (control_envelope world3 ?h) = Some ?cm"
    unfolding ce by (simp add: world3_def world2_def log_def)
  have mm: "msgs world3 4096 = Some ?mm" by (simp add: world3_def log_def)
  have ne: "4096 \<noteq> control_envelope world3 ?h" unfolding ce by simp
  have z: "control_envelope world3 ?h \<noteq> NULL" unfolding ce by (simp add: NULL_def)
  have ok: "append_rv env0 = 0 \<and> send_rv env0 = 0" by (simp add: env0_def)
  have cp: "load_ptr (mem world3) (msg_control ?h) = 12296"
    by (simp add: world3_def log_def world2_control)
  from nn_sendmsg_control_envelope [OF fl nn g c1 c2 cm mm ne z, of 3] ok
  have "\<exists>ret w'. nn_sendmsg env0 world2 3 (Some ?h) 0 = Some (ret, w') \<and>
      msgs w' (control_envelope world3 ?h) = None \<and>
      drop (length (calls world3)) (calls w') =
        [Ev_msg_append_header 4096 (load_ptr (mem world3) (msg_control ?h)) (body_len ?cm),
         Ev_sendmsg 3 4096 (if (0 :: int) = 0 then 0 else NNG_FLAG_NONBLOCK),
         Ev_msg_free (control_envelope world3 ?h)]"
    by blast
  then have "\<exists>ret w'. nn_sendmsg env0 world2 3 (Some ?h) 0 = Some (ret, w') \<and>
      msgs w' 4352 = None \<and>
      drop (length (calls world3)) (calls w') =
        [Ev_msg_append_header 4096 12296 3, Ev_sendmsg 3 4096 0, Ev_msg_free 4352]"
    unfolding ce cp by simp
  then have a: "\<exists>ret w'. nn_sendmsg env0 world2 3 (Some ?h) 0 = Some (ret, w') \<and>
      msgs w' 4352 = None \<and>
      drop (length (calls world3)) (calls w') =
        [Ev_msg_append_header 4096 12296 3, Ev_sendmsg 3 4096 0, Ev_msg_free 4352]" .
  let ?e = "env0\<lparr>send_rv := NNG_ETIMEDOUT\<rparr>"
  have g': "send_gather ?e world2 ?h = Some (Next (4096, False) world3)"
    unfolding world3_gather by (simp add: env0_def world3_def)
  have bad: "append_rv ?e \<noteq> 0 \<or> send_rv ?e \<noteq> 0" by (simp add: NNG_ETIMEDOUT_def)
  from nn_sendmsg_control_envelope [OF fl nn g' c1 c2 cm mm ne z, of 3] bad
  have "\<exists>w'. nn_sendmsg ?e world2 3 (Some ?h) 0 = Some (- 1, w') \<and>
      msgs w' (control_envelope world3 ?h) = Some ?cm \<and>
      Ev_msg_free (control_envelope world3 ?h) \<notin> set (drop (length (calls world3)) (calls w'))"
    by blast
  then have b: "\<exists>w'. nn_sendmsg ?e world2 3 (Some ?h) 0 = Some (- 1, w') \<and>
      msgs w' 4352 = Some ?cm \<and>
      Ev_msg_free 4352 \<notin> set (drop (length (calls world3)) (calls w'))"
    unfolding ce .
  from g ce cm [unfolded ce] mm a b show ?thesis by blast
qed

section \<open>The one-time initialiser\<close>

lemma nni_plat_init_one_after_the_other:
  "plat_run (plat_start 2) [0, 0, 0, 0, 0, 0, 1] =
     \<lparr>initing = 0, inited = 1, helper_calls = 1, threads = [Returned, Returned]\<rparr>"
  by (simp add: plat_start_def plat_step_def InterlockedCompareExchange_def numeral_2_eq_2)

lemma compare_exchange_never_blocks:
  "initing p = 0 \<Longrightarrow> t < length (threads p) \<Longrightarrow> threads p ! t = At_compare_exchange \<Longrightarrow>
   initing (plat_step p t) = 0 \<and> threads (plat_step p t) ! t = At_check_inited"
  by (simp add: plat_step_def InterlockedCompareExchange_def)

text \<open>
  Claim C2 says that when several threads call \<open>nni_plat_init\<close> before any
  initialisation, the helper runs exactly once. The code calls
  \<open>InterlockedCompareExchange (&initing, 0, 1)\<close>: it would store 0 where \<open>initing\<close>
  holds 1, so \<open>initing\<close> stays 0, every caller reads the old value 0 and leaves the
  loop at once (\<open>compare_exchange_never_blocks\<close>). Two threads that take their steps
  in turn both find \<open>inited\<close> at 0 and both call the helper.
\<close>

theorem nni_plat_init_helper_twice:
  "plat_run (plat_start 2) [0, 1, 0, 1, 0, 1, 0, 1, 0, 1, 0, 1] =
     \<lparr>initing = 0, inited = 1, helper_calls = 2, threads = [Returned, Returned]\<rparr>"
  by (simp add: plat_start_def plat_step_def InterlockedCompareExchange_def numeral_2_eq_2)

end
